theory Spec2Isabelle
  imports Main "HOL-Library.Sublist" "HOL-Library.Monad_Syntax"
begin

section \<open>Python strings\<close>

text \<open>
  Python \<open>str\<close> values are modelled as \<open>string\<close>; a character is its code point,
  restricted to the range \<open>0..255\<close>.
\<close>

text \<open>\<open>needle in hay\<close> on two strings: a scan over every start position.\<close>

fun str_in :: "string \<Rightarrow> string \<Rightarrow> bool" where
  "str_in needle [] = (needle = [])"
| "str_in needle (c # cs) = (prefix needle (c # cs) \<or> str_in needle cs)"

text \<open>\<open>str.lower()\<close>: the letters \<open>A..Z\<close> move to \<open>a..z\<close>, as do the capital letters
  of the Latin-1 block; every other character of the range is kept.\<close>

definition char_lower :: "char \<Rightarrow> char" where
  "char_lower c =
     (let n = (of_char c :: nat)
      in if (65 \<le> n \<and> n \<le> 90) \<or> (192 \<le> n \<and> n \<le> 222 \<and> n \<noteq> 215)
         then char_of (n + 32) else c)"

definition str_lower :: "string \<Rightarrow> string" where
  "str_lower s = map char_lower s"

text \<open>\<open>str.isspace()\<close> on one character of the range, and \<open>str.strip()\<close>.\<close>

definition is_space :: "char \<Rightarrow> bool" where
  "is_space c =
     (let n = (of_char c :: nat)
      in (9 \<le> n \<and> n \<le> 13) \<or> (28 \<le> n \<and> n \<le> 32) \<or> n = 133 \<or> n = 160)"

definition lstrip :: "string \<Rightarrow> string" where
  "lstrip s = dropWhile is_space s"

definition rstrip :: "string \<Rightarrow> string" where
  "rstrip s = rev (dropWhile is_space (rev s))"

definition strip :: "string \<Rightarrow> string" where
  "strip s = rstrip (lstrip s)"

text \<open>\<open>str(n)\<close> for a non-negative integer, as an f-string prints it.\<close>

function str_of_nat :: "nat \<Rightarrow> string" where
  "str_of_nat n =
     (if n < 10 then [char_of (48 + n)]
      else str_of_nat (n div 10) @ [char_of (48 + n mod 10)])"
  by pat_completeness auto
termination
  by (relation "measure id") auto

declare str_of_nat.simps [simp del]

text \<open>The specification's reading of "contains the case-insensitive token": some
  slice of the text lowers to the token.\<close>

definition contains_ci :: "string \<Rightarrow> string \<Rightarrow> bool" where
  "contains_ci token s = (\<exists>pre mid post. s = pre @ mid @ post \<and> str_lower mid = token)"

section \<open>JSON values and exceptions\<close>

text \<open>What \<open>json.loads\<close> returns: \<open>None\<close>, a bool, an integer, a string, a list or a
  dict (an association list, read by its first entry for a key).\<close>

datatype json =
    JNull
  | JBool bool
  | JNum int
  | JStr string
  | JArr "json list"
  | JObj "(string \<times> json) list"

datatype exn_class =
    BirdError
  | BirdNotFoundError
  | BirdAuthError
  | BirdRateLimitError
  | AttributeError
  | TypeError
  | ValidationError

text \<open>An exception is its class and \<open>str(e)\<close>. The \<open>stderr\<close> and \<open>returncode\<close>
  attributes of \<open>BirdError\<close> are never read and are left out.\<close>

datatype py_exn = PyExn (exn_cls: exn_class) (exn_str: string)

text \<open>\<open>except BirdError\<close> catches the class and its three subclasses;
  \<open>except BirdRateLimitError\<close> catches that class alone.\<close>

fun is_BirdError :: "exn_class \<Rightarrow> bool" where
  "is_BirdError BirdError = True"
| "is_BirdError BirdNotFoundError = True"
| "is_BirdError BirdAuthError = True"
| "is_BirdError BirdRateLimitError = True"
| "is_BirdError _ = False"

definition BirdNotFoundError_init :: py_exn where
  "BirdNotFoundError_init =
     PyExn BirdNotFoundError
       (''Bird CLI not found. Install it with: bun install -g @nicepkg/bird'' @ [CHR 0x0A] @
        ''Or see: https://github.com/steipete/bird'')"

section \<open>The Bird client\<close>

text \<open>
  What \<open>subprocess.run\<close> does on one call: the timeout expires, the executable is not
  found, or the process completes with a return code, its standard output and its
  standard error. The standard output is carried as what \<open>json.loads\<close> makes of it:
  the decoded value, or the text of the \<open>JSONDecodeError\<close>.
\<close>

datatype run_result =
    TimeoutExpired
  | FileNotFoundError
  | CompletedProcess int "string + json" string

text \<open>\<open>BirdClient._run_bird\<close>; the first argument is \<open>self.timeout\<close>.\<close>

fun run_bird :: "nat \<Rightarrow> run_result \<Rightarrow> py_exn + json" where
  "run_bird timeout TimeoutExpired =
     Inl (PyExn BirdError (''Bird command timed out after '' @ str_of_nat timeout @ ''s''))"
| "run_bird timeout FileNotFoundError = Inl BirdNotFoundError_init"
| "run_bird timeout (CompletedProcess returncode stdout err) =
     (if returncode \<noteq> 0 then
        (let stderr = strip err in
         if str_in ''401'' stderr \<or> str_in ''Unauthorized'' stderr
            \<or> str_in ''auth'' (str_lower stderr)
         then Inl (PyExn BirdAuthError
                ''Authentication failed. Re-extract cookies from your browser.'')
         else if str_in ''429'' stderr \<or> str_in ''rate'' (str_lower stderr)
         then Inl (PyExn BirdRateLimitError ''Rate limit exceeded. Wait before retrying.'')
         else if str_in ''404'' stderr
         then Inl (PyExn BirdError
                ''Tweet not found or query IDs outdated. Try: bird query-ids --fresh'')
         else Inl (PyExn BirdError (''Bird CLI failed: '' @ stderr)))
      else
        (case stdout of
           Inr v \<Rightarrow> Inr v
         | Inl e \<Rightarrow> Inl (PyExn BirdError (''Failed to parse Bird output as JSON: '' @ e))))"

section \<open>Dates\<close>

text \<open>
  A \<open>datetime\<close> object. \<open>tzinfo\<close> is the UTC offset in microseconds, \<open>None\<close> for a
  naive value. The constructor raises \<open>ValueError\<close> (here \<open>None\<close>) on a field out
  of range, as does \<open>timezone\<close> on an offset of a day or more.
\<close>

record datetime =
  year :: int
  month :: int
  day :: int
  hour :: int
  minute :: int
  second :: int
  microsecond :: int
  tzinfo :: "int option"

definition is_leap :: "int \<Rightarrow> bool" where
  "is_leap y = (y mod 4 = 0 \<and> (y mod 100 \<noteq> 0 \<or> y mod 400 = 0))"

definition days_in_month :: "int \<Rightarrow> int \<Rightarrow> int" where
  "days_in_month y m =
     (if m = 2 then (if is_leap y then 29 else 28)
      else if m = 4 \<or> m = 6 \<or> m = 9 \<or> m = 11 then 30 else 31)"

definition datetime_new ::
  "int \<Rightarrow> int \<Rightarrow> int \<Rightarrow> int \<Rightarrow> int \<Rightarrow> int \<Rightarrow> int \<Rightarrow> int option \<Rightarrow> datetime option" where
  "datetime_new y m d h mi s us tz =
     (if 1 \<le> y \<and> y \<le> 9999 \<and> 1 \<le> m \<and> m \<le> 12 \<and> 1 \<le> d \<and> d \<le> days_in_month y m
         \<and> 0 \<le> h \<and> h \<le> 23 \<and> 0 \<le> mi \<and> mi \<le> 59 \<and> 0 \<le> s \<and> s \<le> 59
         \<and> 0 \<le> us \<and> us \<le> 999999
         \<and> (case tz of None \<Rightarrow> True | Some off \<Rightarrow> - 86400000000 < off \<and> off < 86400000000)
      then Some \<lparr>year = y, month = m, day = d, hour = h, minute = mi, second = s,
                  microsecond = us, tzinfo = tz\<rparr>
      else None)"

subsection \<open>\<open>datetime.strptime\<close> with the format \<open>%a %b %d %H:%M:%S %z %Y\<close>\<close>

text \<open>
  The library turns the format into one regular expression, matched from the start
  of the text without regard to letter case (C locale): a weekday name, a month name,
  a day \<open>3[0-1]|[1-2]\d|0[1-9]|[1-9]| [1-9]\<close>, an hour \<open>2[0-3]|[0-1]\d|\d\<close>, a
  minute \<open>[0-5]\d|\d\<close>, a second \<open>6[0-1]|[0-5]\d|\d\<close>, an offset
  \<open>[+-]\d\d:?[0-5]\d(:?[0-5]\d(\.\d{1,6})?)?|Z\<close> and a year \<open>\d\d\d\d\<close>, each blank of the
  format standing for \<open>\s+\<close>. Every field is followed by white space, a colon or the
  end of the text, none of which it can hold, so a field is the whole run of
  characters up to that delimiter. Text left over after the year, a field out of
  range for the constructor and an offset with colons in one place only are each a
  \<open>ValueError\<close> (\<open>None\<close>). The weekday is not compared with the date.
\<close>

definition is_digit :: "char \<Rightarrow> bool" where
  "is_digit c = (let n = (of_char c :: int) in 48 \<le> n \<and> n \<le> 57)"

definition int_of_digits :: "string \<Rightarrow> int" where
  "int_of_digits ds = foldl (\<lambda>n c. 10 * n + (of_char c - 48)) 0 ds"

definition a_weekday :: "string list" where
  "a_weekday = [''mon'', ''tue'', ''wed'', ''thu'', ''fri'', ''sat'', ''sun'']"

definition a_month :: "string list" where
  "a_month = [''jan'', ''feb'', ''mar'', ''apr'', ''may'', ''jun'',
              ''jul'', ''aug'', ''sep'', ''oct'', ''nov'', ''dec'']"

fun index_of :: "'a \<Rightarrow> 'a list \<Rightarrow> int option" where
  "index_of x [] = None"
| "index_of x (y # ys) = (if x = y then Some 0 else map_option (\<lambda>i. i + 1) (index_of x ys))"

definition take_ws :: "string \<Rightarrow> string option" where
  "take_ws s =
     (case s of [] \<Rightarrow> None
      | c # cs \<Rightarrow> if is_space c then Some (dropWhile is_space cs) else None)"

definition take_name :: "string list \<Rightarrow> string \<Rightarrow> (int \<times> string) option" where
  "take_name names s =
     (if length s < 3 then None
      else map_option (\<lambda>i. (i, drop 3 s)) (index_of (str_lower (take 3 s)) names))"

definition take_number :: "int \<Rightarrow> int \<Rightarrow> string \<Rightarrow> (int \<times> string) option" where
  "take_number lo hi s =
     (let ds = takeWhile is_digit s; n = int_of_digits ds
      in if 1 \<le> length ds \<and> length ds \<le> 2 \<and> lo \<le> n \<and> n \<le> hi
         then Some (n, dropWhile is_digit s) else None)"

definition take_char :: "char \<Rightarrow> string \<Rightarrow> string option" where
  "take_char c s = (case s of [] \<Rightarrow> None | x # xs \<Rightarrow> if x = c then Some xs else None)"

definition two_digits :: "string \<Rightarrow> (int \<times> string) option" where
  "two_digits s =
     (case s of
        a # b # r \<Rightarrow> if is_digit a \<and> is_digit b then Some (int_of_digits [a, b], r) else None
      | _ \<Rightarrow> None)"

definition parse_fraction :: "string \<Rightarrow> int option" where
  "parse_fraction r =
     (case r of
        [] \<Rightarrow> Some 0
      | c # f \<Rightarrow>
          if c = CHR ''.'' \<and> 1 \<le> length f \<and> length f \<le> 6 \<and> list_all is_digit f
          then Some (int_of_digits (f @ replicate (6 - length f) (CHR ''0'')))
          else None)"

definition parse_z :: "string \<Rightarrow> int option" where
  "parse_z tok =
     (if tok = ''Z'' then Some 0
      else case tok of
        [] \<Rightarrow> None
      | sg # r0 \<Rightarrow>
          if sg \<noteq> CHR ''+'' \<and> sg \<noteq> CHR ''-'' then None
          else do {
            (hh, r1) \<leftarrow> two_digits r0;
            let c1 = (take 1 r1 = '':'');
            (mm, r2) \<leftarrow> two_digits (if c1 then drop 1 r1 else r1);
            let sign = (if sg = CHR ''-'' then - 1 else (1::int));
            if mm > 59 then None
            else if r2 = [] then Some (sign * ((hh * 3600 + mm * 60) * 1000000))
            else do {
              let c2 = (take 1 r2 = '':'');
              (ss, r3) \<leftarrow> two_digits (if c2 then drop 1 r2 else r2);
              frac \<leftarrow> parse_fraction r3;
              if ss > 59 \<or> c1 \<noteq> c2 then None
              else Some (sign * ((hh * 3600 + mm * 60 + ss) * 1000000 + frac))
            }
          })"

definition strptime :: "string \<Rightarrow> datetime option" where
  "strptime data_string = do {
     (wd, s1) \<leftarrow> take_name a_weekday data_string;
     s2 \<leftarrow> take_ws s1;
     (mo, s3) \<leftarrow> take_name a_month s2;
     s4 \<leftarrow> take_ws s3;
     (d, s5) \<leftarrow> take_number 1 31 s4;
     s6 \<leftarrow> take_ws s5;
     (h, s7) \<leftarrow> take_number 0 23 s6;
     s8 \<leftarrow> take_char (CHR '':'') s7;
     (mi, s9) \<leftarrow> take_number 0 59 s8;
     s10 \<leftarrow> take_char (CHR '':'') s9;
     (sec, s11) \<leftarrow> take_number 0 61 s10;
     s12 \<leftarrow> take_ws s11;
     off \<leftarrow> parse_z (takeWhile (\<lambda>c. \<not> is_space c) s12);
     s13 \<leftarrow> take_ws (dropWhile (\<lambda>c. \<not> is_space c) s12);
     (if length s13 = 4 \<and> list_all is_digit s13
      then datetime_new (int_of_digits s13) (mo + 1) d h mi sec 0 (Some off)
      else None)
   }"

subsection \<open>\<open>datetime.fromisoformat\<close>\<close>

text \<open>
  The parser of CPython 3.11, which works on the UTF-8 bytes of the text up to a
  closing zero byte. \<open>None\<close> stands for the \<open>ValueError\<close> it raises.
\<close>

definition utf8 :: "string \<Rightarrow> int list" where
  "utf8 s =
     concat (map (\<lambda>c. let n = (of_char c :: int)
                      in if n < 128 then [n] else [192 + n div 64, 128 + n mod 64]) s)"

definition byte_at :: "int list \<Rightarrow> nat \<Rightarrow> int" where
  "byte_at buf i = (if i < length buf then buf ! i else 0)"

definition digit_b :: "int \<Rightarrow> bool" where
  "digit_b b = (48 \<le> b \<and> b \<le> 57)"

definition parse_digits :: "int list \<Rightarrow> nat \<Rightarrow> nat \<Rightarrow> int option" where
  "parse_digits buf p n =
     (let ds = take n (drop p buf)
      in if length ds = n \<and> list_all digit_b ds
         then Some (foldl (\<lambda>v b. 10 * v + (b - 48)) 0 ds) else None)"

definition find_isoformat_datetime_separator :: "int list \<Rightarrow> nat option" where
  "find_isoformat_datetime_separator dtstr =
     (let len = length dtstr in
      if len = 7 then Some 7
      else if byte_at dtstr 4 = 45 then
        (if byte_at dtstr 5 = 87 then
           (if len < 8 then None
            else if len > 8 \<and> byte_at dtstr 8 = 45 then
              (if len = 9 then None
               else if len > 10 \<and> digit_b (byte_at dtstr 10) then Some 8
               else Some 10)
            else Some 8)
         else Some 10)
      else if byte_at dtstr 4 = 87 then
        (let idx = 7 + length (takeWhile digit_b (drop 7 dtstr))
         in if idx < 9 then Some idx else if idx mod 2 = 0 then Some 7 else Some 8)
      else Some 8)"

definition days_before_year :: "int \<Rightarrow> int" where
  "days_before_year y = (let p = y - 1 in p * 365 + p div 4 - p div 100 + p div 400)"

definition days_before_month :: "int \<Rightarrow> int \<Rightarrow> int" where
  "days_before_month y m =
     [0, 0, 31, 59, 90, 120, 151, 181, 212, 243, 273, 304, 334] ! nat m
       + (if m > 2 \<and> is_leap y then 1 else 0)"

definition ymd_to_ord :: "int \<Rightarrow> int \<Rightarrow> int \<Rightarrow> int" where
  "ymd_to_ord y m d = days_before_year y + days_before_month y m + d"

definition ord_to_ymd :: "int \<Rightarrow> int \<times> int \<times> int" where
  "ord_to_ymd ordinal =
     (let n0 = ordinal - 1;
          n400 = n0 div 146097; n1 = n0 mod 146097;
          n100 = n1 div 36524; n2 = n1 mod 36524;
          n4 = n2 div 1461; n3 = n2 mod 1461;
          n1y = n3 div 365; n = n3 mod 365;
          y = n400 * 400 + 1 + n100 * 100 + n4 * 4 + n1y
      in if n1y = 4 \<or> n100 = 4 then (y - 1, 12, 31)
         else
           (let leapyear = (n1y = 3 \<and> (n4 \<noteq> 24 \<or> n100 = 3));
                m0 = (n + 50) div 32;
                preceding0 = [0, 0, 31, 59, 90, 120, 151, 181, 212, 243, 273, 304, 334] ! nat m0
                               + (if m0 > 2 \<and> leapyear then 1 else 0);
                m = (if preceding0 > n then m0 - 1 else m0);
                preceding = (if preceding0 > n then preceding0 - days_in_month y m
                             else preceding0)
            in (y, m, n - preceding + 1)))"

definition iso_week1_monday :: "int \<Rightarrow> int" where
  "iso_week1_monday y =
     (let first_day = ymd_to_ord y 1 1;
          first_weekday = (first_day + 6) mod 7;
          week1_monday = first_day - first_weekday
      in if first_weekday > 3 then week1_monday + 7 else week1_monday)"

text \<open>An ISO year, week and weekday as a calendar date; a year outside \<open>1..9999\<close> is
  refused at once, the constructor refusing every date it leads to.\<close>

definition iso_to_ymd :: "int \<Rightarrow> int \<Rightarrow> int \<Rightarrow> (int \<times> int \<times> int) option" where
  "iso_to_ymd y w d =
     (let first_weekday = (ymd_to_ord y 1 1 + 6) mod 7;
          week_ok = ((1 \<le> w \<and> w \<le> 52)
                     \<or> (w = 53 \<and> (first_weekday = 3 \<or> (first_weekday = 2 \<and> is_leap y))));
          ordinal = iso_week1_monday y + (w - 1) * 7 + d - 1
      in if y < 1 \<or> 9999 < y \<or> \<not> week_ok \<or> d < 1 \<or> 7 < d
            \<or> ordinal < 1 \<or> ymd_to_ord 9999 12 31 < ordinal
         then None else Some (ord_to_ymd ordinal))"

definition parse_isoformat_date :: "int list \<Rightarrow> nat \<Rightarrow> (int \<times> int \<times> int) option" where
  "parse_isoformat_date dtstr len = do {
     y \<leftarrow> parse_digits dtstr 0 4;
     let uses_separator = (byte_at dtstr 4 = 45);
     let p = (if uses_separator then 5 else 4);
     if byte_at dtstr p = 87 then do {
       iso_week \<leftarrow> parse_digits dtstr (p + 1) 2;
       if p + 3 < len then
         (if uses_separator \<and> byte_at dtstr (p + 3) \<noteq> 45 then None
          else do {
            iso_day \<leftarrow> parse_digits dtstr (if uses_separator then p + 4 else p + 3) 1;
            iso_to_ymd y iso_week iso_day
          })
       else iso_to_ymd y iso_week 1
     }
     else do {
       m \<leftarrow> parse_digits dtstr p 2;
       if uses_separator \<and> byte_at dtstr (p + 2) \<noteq> 45 then None
       else do {
         d \<leftarrow> parse_digits dtstr (if uses_separator then p + 3 else p + 2) 2;
         Some (y, m, d)
       }
     }
   }"

text \<open>
  The loop over hour, minute and second of \<open>parse_hh_mm_ss_ff\<close>: \<open>k\<close> components are
  still to read, \<open>first\<close> marks the hour. It ends with the components read and either
  the value returned at once (\<open>Inl\<close>: whether a character is left over) or the
  position at which the fraction starts (\<open>Inr\<close>).
\<close>

fun hh_mm_ss_loop ::
  "nat \<Rightarrow> bool \<Rightarrow> int list \<Rightarrow> nat \<Rightarrow> nat \<Rightarrow> bool \<Rightarrow> int list
     \<Rightarrow> (int list \<times> (bool + nat)) option" where
  "hh_mm_ss_loop 0 first buf p_end p has_separator vals = Some (vals, Inr p)"
| "hh_mm_ss_loop (Suc k) first buf p_end p has_separator vals =
     (case parse_digits buf p 2 of
        None \<Rightarrow> None
      | Some v \<Rightarrow>
          (let c = byte_at buf (p + 2);
               hs = (if first then c = 58 else has_separator)
           in if p + 3 \<ge> p_end then Some (vals @ [v], Inl (c \<noteq> 0))
              else if hs \<and> c = 58 then hh_mm_ss_loop k False buf p_end (p + 3) hs (vals @ [v])
              else if c = 46 \<or> c = 44 then Some (vals @ [v], Inr (p + 3))
              else if \<not> hs then hh_mm_ss_loop k False buf p_end (p + 2) hs (vals @ [v])
              else None))"

text \<open>\<open>parse_hh_mm_ss_ff\<close> on the bytes from \<open>p\<close> up to \<open>p_end\<close>: hour, minute, second,
  microsecond and whether something is left over.\<close>

definition parse_hh_mm_ss_ff ::
  "int list \<Rightarrow> nat \<Rightarrow> nat \<Rightarrow> (int \<times> int \<times> int \<times> int \<times> bool) option" where
  "parse_hh_mm_ss_ff buf p p_end =
     (case hh_mm_ss_loop 3 True buf p_end p True [] of
        None \<Rightarrow> None
      | Some (vals, Inl rv) \<Rightarrow>
          Some ((vals @ [0, 0]) ! 0, (vals @ [0, 0]) ! 1, (vals @ [0, 0]) ! 2, 0, rv)
      | Some (vals, Inr q) \<Rightarrow>
          (let len_remains = p_end - q;
               to_parse = (if len_remains \<ge> 6 then 6 else len_remains)
           in case parse_digits buf q to_parse of
                None \<Rightarrow> None
              | Some us \<Rightarrow>
                  (let rest = dropWhile digit_b (drop (q + to_parse) buf)
                   in Some ((vals @ [0, 0]) ! 0, (vals @ [0, 0]) ! 1, (vals @ [0, 0]) ! 2,
                            us * 10 ^ (6 - to_parse), byte_at rest 0 \<noteq> 0))))"

definition find_tzinfo :: "int list \<Rightarrow> nat \<Rightarrow> nat" where
  "find_tzinfo buf p =
     (if byte_at buf p = 90 \<or> byte_at buf p = 43 \<or> byte_at buf p = 45 then p
      else p + 1 + length (takeWhile (\<lambda>b. b \<noteq> 90 \<and> b \<noteq> 43 \<and> b \<noteq> 45) (drop (p + 1) buf)))"

definition parse_isoformat_time ::
  "int list \<Rightarrow> nat \<Rightarrow> (int \<times> int \<times> int \<times> int \<times> int option) option" where
  "parse_isoformat_time buf p =
     (let p_end = length buf; tzinfo_pos = find_tzinfo buf p
      in case parse_hh_mm_ss_ff buf p tzinfo_pos of
           None \<Rightarrow> None
         | Some (h, mi, s, us, rv) \<Rightarrow>
             if tzinfo_pos = p_end then (if rv then None else Some (h, mi, s, us, None))
             else if byte_at buf tzinfo_pos = 90 then
               (if byte_at buf (tzinfo_pos + 1) \<noteq> 0 then None else Some (h, mi, s, us, Some 0))
             else
               (case parse_hh_mm_ss_ff buf (tzinfo_pos + 1) p_end of
                  None \<Rightarrow> None
                | Some (tzh, tzm, tzs, tzus, rv') \<Rightarrow>
                    (let tzsign = (if byte_at buf tzinfo_pos = 45 then - 1 else (1::int));
                         tzoffset = tzh * 3600 + tzm * 60 + tzs
                     in if rv' then None
                        else if tzoffset = 0 then Some (h, mi, s, us, Some 0)
                        else Some (h, mi, s, us,
                                   Some (tzsign * (tzoffset * 1000000 + tzus))))))"

text \<open>The width in bytes of the separator character between date and time.\<close>

definition separator_width :: "int \<Rightarrow> nat" where
  "separator_width b =
     (if b < 128 then 1
      else if b div 16 = 14 then 3 else if b div 16 = 15 then 4 else 2)"

definition fromisoformat :: "string \<Rightarrow> datetime option" where
  "fromisoformat date_string =
     (let buf = utf8 date_string; len = length buf in
      if len < 7 then None
      else do {
        separator_location \<leftarrow> find_isoformat_datetime_separator buf;
        (y, m, d) \<leftarrow> parse_isoformat_date buf separator_location;
        if len > separator_location then do {
          (h, mi, s, us, tz) \<leftarrow>
            parse_isoformat_time buf
              (separator_location + separator_width (byte_at buf separator_location));
          datetime_new y m d h mi s us tz
        }
        else datetime_new y m d 0 0 0 0 None
      })"

section \<open>Python values\<close>

text \<open>Truth value testing, \<open>type(v).__name__\<close>, and the \<open>or\<close> operator, which yields
  its first operand when that is true and its second otherwise.\<close>

fun truthy :: "json \<Rightarrow> bool" where
  "truthy JNull = False"
| "truthy (JBool b) = b"
| "truthy (JNum n) = (n \<noteq> 0)"
| "truthy (JStr s) = (s \<noteq> [])"
| "truthy (JArr xs) = (xs \<noteq> [])"
| "truthy (JObj kvs) = (kvs \<noteq> [])"

fun type_name :: "json \<Rightarrow> string" where
  "type_name JNull = ''NoneType''"
| "type_name (JBool b) = ''bool''"
| "type_name (JNum n) = ''int''"
| "type_name (JStr s) = ''str''"
| "type_name (JArr xs) = ''list''"
| "type_name (JObj kvs) = ''dict''"

definition py_or :: "json \<Rightarrow> json \<Rightarrow> json" where
  "py_or a b = (if truthy a then a else b)"

definition no_attribute :: "json \<Rightarrow> string \<Rightarrow> py_exn" where
  "no_attribute v name =
     PyExn AttributeError
       ([CHR 0x27] @ type_name v @ [CHR 0x27] @ '' object has no attribute ''
        @ [CHR 0x27] @ name @ [CHR 0x27])"

text \<open>\<open>d.get(key, default)\<close> on a dict, and on any value.\<close>

definition dict_get :: "(string \<times> json) list \<Rightarrow> string \<Rightarrow> json \<Rightarrow> json" where
  "dict_get d key dflt = (case map_of d key of None \<Rightarrow> dflt | Some v \<Rightarrow> v)"

definition py_get :: "json \<Rightarrow> string \<Rightarrow> json \<Rightarrow> py_exn + json" where
  "py_get x key dflt =
     (case x of JObj d \<Rightarrow> Inr (dict_get d key dflt) | _ \<Rightarrow> Inl (no_attribute x ''get''))"

text \<open>The items a \<open>for\<close> loop draws from a value: the elements of a list, the
  characters of a string, the keys of a dict (each once, in the order of their first
  entries).\<close>

definition py_iter :: "json \<Rightarrow> py_exn + json list" where
  "py_iter x =
     (case x of
        JArr xs \<Rightarrow> Inr xs
      | JStr s \<Rightarrow> Inr (map (\<lambda>c. JStr [c]) s)
      | JObj d \<Rightarrow> Inr (map JStr (rev (remdups (rev (map fst d)))))
      | _ \<Rightarrow> Inl (PyExn TypeError
                 ([CHR 0x27] @ type_name x @ [CHR 0x27] @ '' object is not iterable'')))"

text \<open>\<open>needle in x\<close> for a string \<open>needle\<close>: a substring test on a string, a
  membership test on a list or on the keys of a dict.\<close>

definition py_in :: "string \<Rightarrow> json \<Rightarrow> py_exn + bool" where
  "py_in needle x =
     (case x of
        JStr s \<Rightarrow> Inr (str_in needle s)
      | JArr xs \<Rightarrow> Inr (JStr needle \<in> set xs)
      | JObj d \<Rightarrow> Inr (needle \<in> set (map fst d))
      | _ \<Rightarrow> Inl (PyExn TypeError
                 (''argument of type '' @ [CHR 0x27] @ type_name x @ [CHR 0x27]
                  @ '' is not iterable'')))"

definition str_endswith :: "string \<Rightarrow> string \<Rightarrow> bool" where
  "str_endswith s suf = prefix (rev suf) (rev s)"

text \<open>\<open>s.replace(old, new)\<close> for a non-empty \<open>old\<close>: the occurrences are replaced
  from the left, without overlap.\<close>

function str_replace :: "string \<Rightarrow> string \<Rightarrow> string \<Rightarrow> string" where
  "str_replace old new [] = []"
| "str_replace old new (c # cs) =
     (if old \<noteq> [] \<and> prefix old (c # cs)
      then new @ str_replace old new (drop (length old) (c # cs))
      else c # str_replace old new cs)"
  by pat_completeness auto
termination
  by (relation "measure (\<lambda>(old, new, s). length s)") auto

section \<open>Media extraction\<close>

text \<open>The loop of \<open>extract_image_urls\<close> over the media items still to visit, with the
  list \<open>images\<close> built so far.\<close>

fun image_loop :: "json list \<Rightarrow> string list \<Rightarrow> py_exn + string list" where
  "image_loop [] images = Inr images"
| "image_loop (media # rest) images =
     (case py_get media ''type'' JNull of
        Inl e \<Rightarrow> Inl e
      | Inr ty \<Rightarrow>
          if ty \<noteq> JStr ''photo'' then image_loop rest images
          else
            (case py_get media ''url'' (JStr []) of
               Inl e \<Rightarrow> Inl e
             | Inr url \<Rightarrow>
                 if \<not> truthy url then image_loop rest images
                 else
                   (case py_in ''twimg.com'' url of
                      Inl e \<Rightarrow> Inl e
                    | Inr False \<Rightarrow> image_loop rest images
                    | Inr True \<Rightarrow>
                        (case url of
                           JStr u \<Rightarrow>
                             (let base_url = takeWhile (\<lambda>c. c \<noteq> CHR ''?'') u
                              in image_loop rest
                                   (images @
                                    [if \<not> str_endswith base_url '':orig''
                                     then base_url @ ''?format=jpg&name=orig'' else u]))
                         | _ \<Rightarrow> Inl (no_attribute url ''split'')))))"

definition extract_image_urls :: "json \<Rightarrow> py_exn + string list" where
  "extract_image_urls raw_data =
     (case py_get raw_data ''media'' (JArr []) of
        Inl e \<Rightarrow> Inl e
      | Inr media_list \<Rightarrow>
          (case py_iter media_list of
             Inl e \<Rightarrow> Inl e
           | Inr items \<Rightarrow> image_loop items []))"

fun video_loop :: "json list \<Rightarrow> json list \<Rightarrow> py_exn + json list" where
  "video_loop [] videos = Inr videos"
| "video_loop (media # rest) videos =
     (case py_get media ''type'' JNull of
        Inl e \<Rightarrow> Inl e
      | Inr ty \<Rightarrow>
          if ty = JStr ''video'' \<or> ty = JStr ''animated_gif'' then
            (case py_get media ''videoUrl'' (JStr []) of
               Inl e \<Rightarrow> Inl e
             | Inr video_url \<Rightarrow>
                 if truthy video_url then video_loop rest (videos @ [video_url])
                 else video_loop rest videos)
          else video_loop rest videos)"

definition extract_video_urls :: "json \<Rightarrow> py_exn + json list" where
  "extract_video_urls raw_data =
     (case py_get raw_data ''media'' (JArr []) of
        Inl e \<Rightarrow> Inl e
      | Inr media_list \<Rightarrow>
          (case py_iter media_list of
             Inl e \<Rightarrow> Inl e
           | Inr items \<Rightarrow> video_loop items []))"

text \<open>\<open>format_image_url\<close> (in \<open>utils.py\<close>) on a string: the sibling of the
  canonicalization inside \<open>extract_image_urls\<close>.\<close>

definition format_image_url :: "string \<Rightarrow> string \<Rightarrow> string" where
  "format_image_url a_url size_arg =
     (if a_url = [] \<or> \<not> str_in ''twimg.com'' a_url then a_url
      else (let base_url = takeWhile (\<lambda>c. c \<noteq> CHR ''?'') a_url
            in base_url @ ''?format=jpg&name='' @ size_arg))"

section \<open>The response normalizer\<close>

text \<open>\<open>safe_get(data, *keys)\<close> with the default \<open>None\<close>.\<close>

fun safe_get :: "json \<Rightarrow> string list \<Rightarrow> json" where
  "safe_get current [] = current"
| "safe_get current (key # keys) =
     (case current of
        JObj d \<Rightarrow>
          (let c = dict_get d key JNull in if c = JNull then JNull else safe_get c keys)
      | _ \<Rightarrow> JNull)"

text \<open>
  \<open>parse_twitter_date\<close>. The first argument is what \<open>datetime.now()\<close> returns when it
  is called. On a value that is not a string \<open>strptime\<close> raises \<open>TypeError\<close>, which
  no \<open>except ValueError\<close> catches.
\<close>

definition parse_twitter_date :: "datetime \<Rightarrow> json \<Rightarrow> py_exn + datetime" where
  "parse_twitter_date now date_str =
     (case date_str of
        JStr s \<Rightarrow>
          (case strptime s of
             Some d \<Rightarrow> Inr d
           | None \<Rightarrow>
               (case fromisoformat (str_replace ''Z'' ''+00:00'' s) of
                  Some d \<Rightarrow> Inr d
                | None \<Rightarrow> Inr now))
      | _ \<Rightarrow>
          Inl (PyExn TypeError
                 (''strptime() argument 1 must be str, not ''
                  @ (if date_str = JNull then ''None'' else type_name date_str))))"

subsection \<open>The text of a \<open>ValidationError\<close>\<close>

text \<open>\<open>str(n)\<close> for an integer.\<close>

function dec_digits :: "int \<Rightarrow> string" where
  "dec_digits n =
     (if n < 10 then [char_of (48 + n)]
      else dec_digits (n div 10) @ [char_of (48 + n mod 10)])"
  by pat_completeness auto
termination
  by (relation "measure nat") auto

declare dec_digits.simps [simp del]

definition str_of_int :: "int \<Rightarrow> string" where
  "str_of_int n = (if n < 0 then CHR ''-'' # dec_digits (- n) else dec_digits n)"

text \<open>
  \<open>repr\<close> of a string: between single quotes, or double quotes when the text has a
  single quote and no double quote; the quote and the backslash are escaped by a
  backslash, tab, newline and carriage return are written as a backslash and the
  letter \<open>t\<close>, \<open>n\<close> or \<open>r\<close>, and every other character that is not printable as
  a backslash, the letter \<open>x\<close> and two hexadecimal digits.
\<close>

definition hex_digit :: "nat \<Rightarrow> char" where
  "hex_digit n = ''0123456789abcdef'' ! n"

definition repr_char :: "char \<Rightarrow> char \<Rightarrow> string" where
  "repr_char quote c =
     (let n = (of_char c :: nat) in
      if c = quote \<or> c = CHR 0x5C then [CHR 0x5C, c]
      else if n = 9 then [CHR 0x5C, CHR ''t'']
      else if n = 10 then [CHR 0x5C, CHR ''n'']
      else if n = 13 then [CHR 0x5C, CHR ''r'']
      else if n < 32 \<or> n = 127 \<or> (128 \<le> n \<and> n \<le> 160) \<or> n = 173
      then [CHR 0x5C, CHR ''x'', hex_digit (n div 16), hex_digit (n mod 16)]
      else [c])"

definition str_repr :: "string \<Rightarrow> string" where
  "str_repr s =
     (let quote = (if CHR 0x27 \<in> set s \<and> CHR 0x22 \<notin> set s then CHR 0x22 else CHR 0x27)
      in [quote] @ concat (map (repr_char quote) s) @ [quote])"

text \<open>\<open>sep.join(xs)\<close>, and \<open>repr\<close> of a decoded JSON value.\<close>

fun str_join :: "string \<Rightarrow> string list \<Rightarrow> string" where
  "str_join sep [] = []"
| "str_join sep [x] = x"
| "str_join sep (x # y # ys) = x @ sep @ str_join sep (y # ys)"

fun py_repr :: "json \<Rightarrow> string" where
  "py_repr JNull = ''None''"
| "py_repr (JBool b) = (if b then ''True'' else ''False'')"
| "py_repr (JNum n) = str_of_int n"
| "py_repr (JStr s) = str_repr s"
| "py_repr (JArr xs) = ''['' @ str_join '', '' (map py_repr xs) @ '']''"
| "py_repr (JObj kvs) =
     ''{'' @ str_join '', '' (map (\<lambda>kv. str_repr (fst kv) @ '': '' @ py_repr (snd kv)) kvs)
       @ ''}''"

text \<open>
  The report shows the \<open>repr\<close> of a refused input cut down to fifty bytes of UTF-8:
  of a longer one it keeps the characters that fit in the first twenty-five bytes and
  those that fit in the last twenty-four, with three dots between them.
\<close>

definition char_bytes :: "char \<Rightarrow> nat" where
  "char_bytes c = (if (of_char c :: nat) < 128 then 1 else 2)"

fun take_bytes :: "nat \<Rightarrow> string \<Rightarrow> string" where
  "take_bytes n [] = []"
| "take_bytes n (c # cs) =
     (if char_bytes c \<le> n then c # take_bytes (n - char_bytes c) cs else [])"

definition truncated :: "string \<Rightarrow> string" where
  "truncated val =
     (if length (utf8 val) > 50
      then take_bytes 25 val @ ''...'' @ rev (take_bytes 24 (rev val))
      else val)"

text \<open>
  One entry of the report: the location, then the message with the kind of error,
  the input and its type, then the link to the documentation of that kind of error.
  The link names the two leading components of the version of the installed library,
  which the repository does not pin.
\<close>

definition pydantic_version :: string where
  "pydantic_version = ''2.11''"

definition line_error :: "string \<Rightarrow> string \<Rightarrow> string \<Rightarrow> json \<Rightarrow> string" where
  "line_error loc message type_string input_value =
     loc @ [CHR 0x0A] @ ''  '' @ message @ '' [type='' @ type_string
       @ '', input_value='' @ truncated (py_repr input_value)
       @ '', input_type='' @ type_name input_value @ '']'' @ [CHR 0x0A]
       @ ''    For further information visit https://errors.pydantic.dev/''
       @ pydantic_version @ ''/v/'' @ type_string"

definition string_type_error :: "string \<Rightarrow> json \<Rightarrow> string" where
  "string_type_error loc v = line_error loc ''Input should be a valid string'' ''string_type'' v"

definition datetime_type_error :: "string \<Rightarrow> json \<Rightarrow> string" where
  "datetime_type_error loc v =
     line_error loc ''Input should be a valid datetime'' ''datetime_type'' v"

text \<open>\<open>str(e)\<close> of a \<open>ValidationError\<close> for the model \<open>title\<close>.\<close>

definition validation_error_str :: "string \<Rightarrow> string list \<Rightarrow> string" where
  "validation_error_str title line_errors =
     str_of_nat (length line_errors) @ '' validation error''
       @ (if length line_errors = 1 then [] else ''s'') @ '' for '' @ title @ [CHR 0x0A]
       @ str_join [CHR 0x0A] line_errors"

subsection \<open>The model \<open>TweetData\<close>\<close>

text \<open>
  \<open>TweetData\<close>. \<open>created_at\<close> holds a \<open>datetime\<close> or a string; \<open>thread_position\<close> is
  never set; the fields \<open>id\<close> and \<open>text\<close> are \<open>id_field\<close> and \<open>text_field\<close> here.
  The model's constructor takes the arguments as \<open>parse_bird_response\<close>
  passes them and applies pydantic's validation: a string field takes a string only,
  an optional one also \<open>None\<close>, and \<open>created_at\<close> takes an integer as seconds since
  1970 (only zero can arrive). When an argument is refused the constructor raises
  \<open>ValidationError\<close> with the report of every refused argument, in the order of the
  fields.
\<close>

record TweetData =
  id_field :: string
  url :: string
  text_field :: string
  created_at :: "datetime + string"
  author_handle :: string
  author_name :: "string option"
  images :: "string list"
  videos :: "string list"
  is_thread :: bool
  thread_position :: "int option"
  conversation_id :: "string option"

definition validate_str :: "json \<Rightarrow> string option" where
  "validate_str v = (case v of JStr s \<Rightarrow> Some s | _ \<Rightarrow> None)"

definition validate_optional_str :: "json \<Rightarrow> string option option" where
  "validate_optional_str v =
     (case v of JStr s \<Rightarrow> Some (Some s) | JNull \<Rightarrow> Some None | _ \<Rightarrow> None)"

fun validate_str_list :: "json list \<Rightarrow> string list option" where
  "validate_str_list [] = Some []"
| "validate_str_list (v # vs) =
     (case (validate_str v, validate_str_list vs) of
        (Some s, Some ss) \<Rightarrow> Some (s # ss)
      | _ \<Rightarrow> None)"

definition validate_created_at :: "datetime + json \<Rightarrow> (datetime + string) option" where
  "validate_created_at v =
     (case v of
        Inl d \<Rightarrow> Some (Inl d)
      | Inr (JStr s) \<Rightarrow> Some (Inr s)
      | Inr (JNum n) \<Rightarrow>
          (if n = 0
           then Some (Inl \<lparr>year = 1970, month = 1, day = 1, hour = 0, minute = 0, second = 0,
                           microsecond = 0, tzinfo = Some 0\<rparr>)
           else None)
      | Inr _ \<Rightarrow> None)"

text \<open>
  The entries of the report for each kind of field: a string, an optional string, a
  list of strings (one entry for each refused item, located by its index), and
  \<open>created_at\<close>, for which both members of the union report.
\<close>

definition str_errors :: "string \<Rightarrow> json \<Rightarrow> string list" where
  "str_errors loc v = (case validate_str v of Some s \<Rightarrow> [] | None \<Rightarrow> [string_type_error loc v])"

definition optional_str_errors :: "string \<Rightarrow> json \<Rightarrow> string list" where
  "optional_str_errors loc v =
     (case validate_optional_str v of Some s \<Rightarrow> [] | None \<Rightarrow> [string_type_error loc v])"

fun str_list_errors :: "string \<Rightarrow> nat \<Rightarrow> json list \<Rightarrow> string list" where
  "str_list_errors loc i [] = []"
| "str_list_errors loc i (v # vs) =
     str_errors (loc @ ''.'' @ str_of_nat i) v @ str_list_errors loc (Suc i) vs"

definition created_at_errors :: "datetime + json \<Rightarrow> string list" where
  "created_at_errors v =
     (case validate_created_at v of
        Some c \<Rightarrow> []
      | None \<Rightarrow>
          (case v of
             Inl d \<Rightarrow> []
           | Inr x \<Rightarrow> [datetime_type_error ''created_at.datetime'' x,
                       string_type_error ''created_at.str'' x]))"

definition TweetData_init ::
  "json \<Rightarrow> string \<Rightarrow> json \<Rightarrow> datetime + json \<Rightarrow> json \<Rightarrow> json \<Rightarrow> string list \<Rightarrow> json list
     \<Rightarrow> bool \<Rightarrow> json \<Rightarrow> py_exn + TweetData" where
  "TweetData_init a_id a_url a_text a_created_at a_author_handle a_author_name a_images
     a_videos a_is_thread a_conversation_id =
     (case (validate_str a_id, validate_str a_text, validate_created_at a_created_at,
            validate_str a_author_handle, validate_optional_str a_author_name,
            validate_str_list a_videos, validate_optional_str a_conversation_id) of
        (Some i, Some t, Some c, Some h, Some n, Some v, Some cid) \<Rightarrow>
          Inr \<lparr>id_field = i, url = a_url, text_field = t, created_at = c, author_handle = h,
               author_name = n, images = a_images, videos = v, is_thread = a_is_thread,
               thread_position = None, conversation_id = cid\<rparr>
      | _ \<Rightarrow>
          Inl (PyExn ValidationError
                 (validation_error_str ''TweetData''
                    (str_errors ''id'' a_id @ str_errors ''text'' a_text
                     @ created_at_errors a_created_at
                     @ str_errors ''author_handle'' a_author_handle
                     @ optional_str_errors ''author_name'' a_author_name
                     @ str_list_errors ''videos'' 0 a_videos
                     @ optional_str_errors ''conversation_id'' a_conversation_id))))"

text \<open>
  \<open>parse_bird_response\<close>; the first argument is the clock reading that
  \<open>parse_twitter_date\<close> may fall back to. The comparison \<open>conversation_id != tweet_id\<close>
  is read as inequality of the two values, which is Python's answer whenever both
  are strings or \<open>None\<close>; for any other pair the constructor refuses the arguments.
\<close>

definition parse_bird_response :: "datetime \<Rightarrow> json \<Rightarrow> string \<Rightarrow> py_exn + TweetData" where
  "parse_bird_response now raw_data a_url =
     (case raw_data of
        JObj r \<Rightarrow>
          (case dict_get r ''author'' (JObj []) of
             JObj author \<Rightarrow>
               (let author_handle =
                      py_or (py_or (dict_get author ''username'' (JStr []))
                                   (dict_get author ''handle'' (JStr [])))
                            (dict_get author ''screen_name'' (JStr []));
                    author_name = py_or (dict_get author ''name'' (JStr []))
                                        (dict_get author ''displayName'' (JStr []));
                    created_at_raw = py_or (dict_get r ''createdAt'' (JStr []))
                                           (dict_get r ''created_at'' (JStr []))
                in case (if truthy created_at_raw
                         then map_sum id Inl (parse_twitter_date now created_at_raw)
                         else Inr (Inr created_at_raw)) of
                     Inl e \<Rightarrow> Inl e
                   | Inr created \<Rightarrow>
                       (case extract_image_urls raw_data of
                          Inl e \<Rightarrow> Inl e
                        | Inr imgs \<Rightarrow>
                            (case extract_video_urls raw_data of
                               Inl e \<Rightarrow> Inl e
                             | Inr vids \<Rightarrow>
                                 (let c_id = py_or (dict_get r ''conversationId'' JNull)
                                               (safe_get raw_data
                                                  [''legacy'', ''conversation_id_str'']);
                                      tweet_id = dict_get r ''id'' (JStr []);
                                      thread = (c_id \<noteq> JNull \<and> c_id \<noteq> tweet_id)
                                  in TweetData_init tweet_id a_url
                                       (py_or (dict_get r ''text'' (JStr []))
                                              (dict_get r ''full_text'' (JStr [])))
                                       created author_handle author_name imgs vids thread
                                       c_id))))
           | author \<Rightarrow> Inl (no_attribute author ''get''))
      | _ \<Rightarrow> Inl (no_attribute raw_data ''get''))"

section \<open>The scraper\<close>

text \<open>
  The effects of one call, in order: a log record (level and event name), a
  subprocess started with its command line, a look-up of an executable on the path,
  a read of the settings, and a wait of so many seconds.
\<close>

datatype event =
    Log string string
  | Spawn "string list"
  | Which string
  | GetSettings
  | Sleep nat

text \<open>
  What one call of \<open>scrape_tweets\<close> meets outside the program: whether
  \<open>shutil.which\<close> finds the tool, what \<open>subprocess.run\<close> does for the read
  and for the refresh command, and the clock.
\<close>

record world =
  which_bird :: bool
  read_result :: run_result
  refresh_result :: run_result
  clock :: datetime

text \<open>What \<open>_run_bird\<close> logs and starts, beside the value or exception given by
  \<open>run_bird\<close>.\<close>

definition run_bird_events :: "string list \<Rightarrow> run_result \<Rightarrow> event list" where
  "run_bird_events args res =
     [Log ''debug'' ''executing_bird'', Spawn ([''bird''] @ args @ [''--json''])]
     @ (case res of
          CompletedProcess returncode stdout err \<Rightarrow>
            (if returncode \<noteq> 0 then [Log ''error'' ''bird_failed'']
             else (case stdout of
                     Inl e \<Rightarrow> [Log ''error'' ''bird_json_parse_error'']
                   | Inr v \<Rightarrow> []))
        | _ \<Rightarrow> [])"

text \<open>\<open>BirdClient.refresh_query_ids\<close>: its effects, and the exception it raises if
  any.\<close>

definition refresh_query_ids :: "run_result \<Rightarrow> event list \<times> py_exn option" where
  "refresh_query_ids res =
     (case res of
        TimeoutExpired \<Rightarrow>
          ([Log ''info'' ''refreshing_query_ids'', Spawn [''bird'', ''query-ids'', ''--fresh''],
            Log ''warning'' ''query_ids_refresh_timeout''], None)
      | FileNotFoundError \<Rightarrow>
          ([Log ''info'' ''refreshing_query_ids'', Spawn [''bird'', ''query-ids'', ''--fresh'']],
           Some BirdNotFoundError_init)
      | CompletedProcess returncode stdout err \<Rightarrow>
          ([Log ''info'' ''refreshing_query_ids'', Spawn [''bird'', ''query-ids'', ''--fresh'']],
           None))"

definition normalize_x_url :: "string \<Rightarrow> string" where
  "normalize_x_url u = str_replace ''twitter.com'' ''x.com'' u"

text \<open>\<open>ScraperResult\<close>; its field \<open>url\<close> is \<open>result_url\<close> here. \<open>to_dict\<close> dumps the
  fields one by one and is not modelled apart.\<close>

record ScraperResult =
  success :: bool
  result_url :: string
  data :: "TweetData option"
  error :: "string option"

text \<open>The \<open>except\<close> clauses of \<open>scrape_tweets\<close>, applied to an exception raised inside
  the \<open>try\<close> block after the effects \<open>ev\<close>: the result is the effects and either the
  exception that leaves the function (\<open>Inl\<close>) or the value returned (\<open>Inr\<close>).\<close>

definition scrape_except ::
  "world \<Rightarrow> string \<Rightarrow> event list \<Rightarrow> py_exn \<Rightarrow> event list \<times> (py_exn + ScraperResult)" where
  "scrape_except w a_url ev e =
     (if exn_cls e = BirdRateLimitError then (ev @ [Log ''warning'' ''rate_limited''], Inl e)
      else if is_BirdError (exn_cls e) then
        (if str_in ''404'' (exn_str e) \<or> str_in ''query'' (str_lower (exn_str e)) then
           (case refresh_query_ids (refresh_result w) of
              (evr, Some e') \<Rightarrow>
                (ev @ [Log ''info'' ''refreshing_query_ids_for_retry''] @ evr, Inl e')
            | (evr, None) \<Rightarrow>
                (ev @ [Log ''info'' ''refreshing_query_ids_for_retry''] @ evr, Inl e))
         else
           (ev @ [Log ''error'' ''scrape_failed''],
            Inr \<lparr>success = False, result_url = a_url, data = None,
                 error = Some (exn_str e)\<rparr>))
      else
        (ev @ [Log ''exception'' ''unexpected_error''],
         Inr \<lparr>success = False, result_url = a_url, data = None,
              error = Some (''Unexpected error: '' @ exn_str e)\<rparr>))"

text \<open>
  One call of \<open>scrape_tweets\<close> (the function under the decorator) on the dict
  \<open>data\<close>. The client is built with the default timeout of 60 seconds; building it
  reads the settings and looks the tool up (\<open>client_events\<close>), outside the \<open>try\<close>
  block; \<open>read_events\<close> are the effects up to the end of \<open>read_tweet\<close>.
\<close>

definition client_events :: "event list" where
  "client_events = [GetSettings, GetSettings, Which ''bird'']"

definition read_events :: "string \<Rightarrow> run_result \<Rightarrow> event list" where
  "read_events a_url res =
     client_events @ [Log ''info'' ''scraping_tweet'', Log ''info'' ''reading_tweet'']
     @ run_bird_events [''read'', a_url] res"

definition scrape_tweets ::
  "world \<Rightarrow> (string \<times> json) list \<Rightarrow> event list \<times> (py_exn + ScraperResult)" where
  "scrape_tweets w data_arg =
     (let url0 = dict_get data_arg ''url'' (JStr []) in
      if \<not> truthy url0 then
        ([], Inr \<lparr>success = False, result_url = [], data = None,
                  error = Some ''No URL provided''\<rparr>)
      else
        (case url0 of
           JStr u \<Rightarrow>
             (let a_url = normalize_x_url u
              in if \<not> which_bird w then (client_events, Inl BirdNotFoundError_init)
                 else
                   (let ev1 = read_events a_url (read_result w)
                    in case run_bird 60 (read_result w) of
                         Inl e \<Rightarrow> scrape_except w a_url ev1 e
                       | Inr raw_data \<Rightarrow>
                           (case parse_bird_response (clock w) raw_data a_url of
                              Inl e \<Rightarrow> scrape_except w a_url ev1 e
                            | Inr tweet \<Rightarrow>
                                (ev1 @ [Log ''info'' ''tweet_scraped''],
                                 Inr \<lparr>success = True, result_url = a_url, data = Some tweet,
                                      error = None\<rparr>))))
         | _ \<Rightarrow> ([], Inl (no_attribute url0 ''replace''))))"

text \<open>
  Modelled from the spec: the retry loop of the \<open>task\<close> decorator around
  \<open>scrape_tweets\<close>. The decorator belongs to the botasaurus library and is not part of
  the repository; the source gives it a retry count and a wait between retries. As
  in the specification's job state machine, an attempt that returns ends the job; an
  attempt that raises is followed, while attempts remain, by a wait of the retry
  delay and a new invocation with the attempt count incremented; the last attempt
  ends the job whatever it does. \<open>retries\<close> is the number of attempts that remain
  after this one, \<open>ws n\<close> the world met by attempt number \<open>n\<close> (from zero), and the
  result holds the effects, the outcome and the number of attempts consumed.
\<close>

fun task_retry ::
  "nat \<Rightarrow> nat \<Rightarrow> (nat \<Rightarrow> world) \<Rightarrow> (string \<times> json) list \<Rightarrow> nat
     \<Rightarrow> event list \<times> (py_exn + ScraperResult) \<times> nat" where
  "task_retry 0 retry_wait ws data_arg n =
     (case scrape_tweets (ws n) data_arg of (ev, r) \<Rightarrow> (ev, r, n + 1))"
| "task_retry (Suc retries) retry_wait ws data_arg n =
     (case scrape_tweets (ws n) data_arg of
        (ev, Inr res) \<Rightarrow> (ev, Inr res, n + 1)
      | (ev, Inl e) \<Rightarrow>
          (case task_retry retries retry_wait ws data_arg (n + 1) of
             (ev', r, m) \<Rightarrow> (ev @ [Sleep retry_wait] @ ev', r, m)))"

text \<open>A job with \<open>max_attempts\<close> attempts at most (a positive number).\<close>

definition run_job ::
  "nat \<Rightarrow> nat \<Rightarrow> (nat \<Rightarrow> world) \<Rightarrow> (string \<times> json) list
     \<Rightarrow> event list \<times> (py_exn + ScraperResult) \<times> nat" where
  "run_job max_attempts retry_wait ws data_arg =
     task_retry (max_attempts - 1) retry_wait ws data_arg 0"

text \<open>The same world at every attempt.\<close>

definition every_attempt :: "world \<Rightarrow> nat \<Rightarrow> world" where
  "every_attempt w n = w"

section \<open>Sample inputs\<close>

text \<open>A clock reading, a world in which the tool is installed, and a job input, for
  the concrete instances below.\<close>

definition sample_clock :: datetime where
  "sample_clock = \<lparr>year = 2026, month = 11, day = 4, hour = 9, minute = 30, second = 15,
                    microsecond = 250000, tzinfo = None\<rparr>"

definition sample_world :: "run_result \<Rightarrow> run_result \<Rightarrow> world" where
  "sample_world r f = \<lparr>which_bird = True, read_result = r, refresh_result = f,
                        clock = sample_clock\<rparr>"

definition sample_data :: "(string \<times> json) list" where
  "sample_data = [(''url'', JStr ''https://twitter.com/user/status/123'')]"

section \<open>Notions used to state the properties\<close>

text \<open>What \<open>extract_image_urls\<close> turns a kept URL into: the URL itself when its part
  before the first question mark ends with \<open>:orig\<close>, otherwise that part followed by
  the canonical query.\<close>

definition canonical_image_url :: "string \<Rightarrow> string" where
  "canonical_image_url u =
     (let base_url = takeWhile (\<lambda>c. c \<noteq> CHR ''?'') u
      in if suffix '':orig'' base_url then u else base_url @ ''?format=jpg&name=orig'')"

text \<open>The URL of a media item of type \<open>photo\<close> that contains the image host marker,
  if the item is one.\<close>

definition qualifying_photo_url :: "json \<Rightarrow> string option" where
  "qualifying_photo_url media =
     (case media of
        JObj d \<Rightarrow>
          (if dict_get d ''type'' JNull = JStr ''photo'' then
             (case dict_get d ''url'' (JStr []) of
                JStr u \<Rightarrow> if sublist ''twimg.com'' u then Some u else None
              | _ \<Rightarrow> None)
           else None)
      | _ \<Rightarrow> None)"

text \<open>A datetime that the constructor accepts.\<close>

definition valid_datetime :: "datetime \<Rightarrow> bool" where
  "valid_datetime d =
     (datetime_new (year d) (month d) (day d) (hour d) (minute d) (second d) (microsecond d)
        (tzinfo d) = Some d)"

text \<open>
  A trailing \<open>Z\<close> read as the offset \<open>+00:00\<close>, as the specification has it: only
  the last character of the text is looked at.
\<close>

definition trailing_Z_as_offset :: "string \<Rightarrow> string" where
  "trailing_Z_as_offset s =
     (if s \<noteq> [] \<and> last s = CHR ''Z'' then butlast s @ ''+00:00'' else s)"





text \<open>A later reading of the sample clock.\<close>

definition later_clock :: datetime where
  "later_clock = sample_clock\<lparr>second := 16\<rparr>"

section \<open>Facts about the string primitives\<close>

lemma str_in_sublist: "str_in needle hay = sublist needle hay"
  by (induction hay) (simp_all add: sublist_Cons_right)

lemma char_lower_space: "is_space c \<Longrightarrow> char_lower c = c"
  by (auto simp: is_space_def char_lower_def Let_def)

lemma strip_sublist: "sublist (strip s) s"
  unfolding strip_def rstrip_def lstrip_def
  by (metis sublist_order.order.trans suffix_dropWhile suffix_imp_sublist sublist_rev dropWhile_eq_drop sublist_drop rev_rev_ident)

lemma dropWhile_keeps:
  assumes "n \<noteq> []" "\<not> P (hd n)"
  shows "\<exists>pre'. dropWhile P (pre @ n @ post) = pre' @ n @ post"
proof (cases "\<forall>x\<in>set pre. P x")
  case True
  then have "dropWhile P (pre @ n @ post) = dropWhile P (n @ post)"
    by (simp add: dropWhile_append)
  also have "\<dots> = n @ post" using assms by (cases n) auto
  finally show ?thesis by (intro exI[of _ "[]"]) simp
next
  case False
  then have "dropWhile P (pre @ n @ post) = dropWhile P pre @ n @ post"
    by (auto simp: dropWhile_append)
  then show ?thesis by blast
qed

lemma lstrip_keeps:
  assumes "n \<noteq> []" "\<not> is_space (hd n)" "sublist n s"
  shows "sublist n (lstrip s)"
  using assms dropWhile_keeps[of n is_space] unfolding lstrip_def sublist_def by metis

lemma rstrip_keeps:
  assumes "n \<noteq> []" "\<not> is_space (last n)" "sublist n s"
  shows "sublist n (rstrip s)"
proof -
  have "sublist (rev n) (rev s)" using assms by simp
  moreover have "rev n \<noteq> []" "\<not> is_space (hd (rev n))" using assms by (simp_all add: hd_rev)
  ultimately have "sublist (rev n) (dropWhile is_space (rev s))"
    using dropWhile_keeps[of "rev n" is_space] unfolding sublist_def by metis
  then show ?thesis unfolding rstrip_def by (simp add: sublist_rev_right)
qed

lemma sublist_strip:
  assumes "n \<noteq> []" "\<not> is_space (hd n)" "\<not> is_space (last n)"
  shows "sublist n (strip s) = sublist n s"
  using assms lstrip_keeps rstrip_keeps strip_sublist
  unfolding strip_def by (meson sublist_order.order.trans)

lemma str_lower_sublist: "sublist n (str_lower s) = contains_ci n s"
proof
  assume "sublist n (str_lower s)"
  then obtain ps ss where "map char_lower s = ps @ n @ ss"
    unfolding sublist_def str_lower_def by blast
  then obtain a r where 1: "s = a @ r" "map char_lower r = n @ ss"
    by (metis map_eq_append_conv)
  from 1(2) obtain b c where "r = b @ c" "map char_lower b = n"
    by (metis map_eq_append_conv)
  with 1 have "s = a @ b @ c" "map char_lower b = n" by simp_all
  then show "contains_ci n s" unfolding contains_ci_def str_lower_def by blast
next
  assume "contains_ci n s"
  then obtain a b c where "s = a @ b @ c" "map char_lower b = n"
    unfolding contains_ci_def str_lower_def by blast
  then have "map char_lower s = map char_lower a @ n @ map char_lower c" by simp
  then show "sublist n (str_lower s)" unfolding sublist_def str_lower_def by blast
qed

lemma contains_ci_sublist: "contains_ci n s = (\<exists>mid. str_lower mid = n \<and> sublist mid s)"
  unfolding contains_ci_def sublist_def by auto

lemma contains_ci_strip:
  assumes "n \<noteq> []" "\<not> is_space (hd n)" "\<not> is_space (last n)"
  shows "contains_ci n (strip s) = contains_ci n s"
proof -
  have "sublist mid (strip s) = sublist mid s" if "str_lower mid = n" for mid
  proof -
    from that assms(1) have ne: "mid \<noteq> []" unfolding str_lower_def by auto
    from that ne have "hd n = char_lower (hd mid)" "last n = char_lower (last mid)"
      unfolding str_lower_def by (auto simp: hd_map last_map)
    with assms(2,3) have "\<not> is_space (hd mid)" "\<not> is_space (last mid)"
      using char_lower_space by force+
    with ne show ?thesis by (rule sublist_strip)
  qed
  then show ?thesis unfolding contains_ci_sublist by blast
qed

section \<open>Failure classification\<close>

lemma strip_keeps_markers:
  "sublist ''401'' (strip e) = sublist ''401'' e"
  "sublist ''Unauthorized'' (strip e) = sublist ''Unauthorized'' e"
  "sublist ''429'' (strip e) = sublist ''429'' e"
  "sublist ''404'' (strip e) = sublist ''404'' e"
  by (rule sublist_strip; simp add: is_space_def)+

lemma strip_keeps_tokens:
  "sublist ''auth'' (str_lower (strip e)) = contains_ci ''auth'' e"
  "sublist ''rate'' (str_lower (strip e)) = contains_ci ''rate'' e"
  unfolding str_lower_sublist by (rule contains_ci_strip; simp add: is_space_def)+

lemma run_bird_failure:
  assumes "returncode \<noteq> 0"
  shows "run_bird timeout (CompletedProcess returncode stdout e) =
     Inl (if sublist ''401'' e \<or> sublist ''Unauthorized'' e \<or> contains_ci ''auth'' e
          then PyExn BirdAuthError
                 ''Authentication failed. Re-extract cookies from your browser.''
          else if sublist ''429'' e \<or> contains_ci ''rate'' e
          then PyExn BirdRateLimitError ''Rate limit exceeded. Wait before retrying.''
          else if sublist ''404'' e
          then PyExn BirdError
                 ''Tweet not found or query IDs outdated. Try: bird query-ids --fresh''
          else PyExn BirdError (''Bird CLI failed: '' @ strip e))"
  using assms by (simp add: str_in_sublist strip_keeps_markers strip_keeps_tokens Let_def)

text \<open>
  Claim C2. When the tool exits with a nonzero code, \<open>_run_bird\<close> classifies the
  failure by substring rules over the standard error text, the first matching rule
  winning: a text that contains \<open>401\<close> or \<open>Unauthorized\<close>, or \<open>auth\<close> in any
  letter case, raises \<open>BirdAuthError\<close> (the specification's AuthExpired); otherwise
  one that contains \<open>429\<close>, or \<open>rate\<close> in any letter case, raises
  \<open>BirdRateLimitError\<close> (RateLimited); otherwise one that contains \<open>404\<close> raises
  the \<open>BirdError\<close> of a missing tweet or outdated query ids (NotFoundOrStale);
  otherwise the generic \<open>BirdError\<close> is raised (Unclassified). The containment is
  that of the text as the tool wrote it: stripping the surrounding white space first,
  as the code does, changes none of the tests. In particular a text that contains
  \<open>401 Unauthorized\<close> is an authentication failure even when \<open>404\<close> follows it.
\<close>

theorem run_bird_classification:
  assumes "returncode \<noteq> 0"
  shows "run_bird timeout (CompletedProcess returncode stdout stderr) =
     Inl (if sublist ''401'' stderr \<or> sublist ''Unauthorized'' stderr
             \<or> contains_ci ''auth'' stderr
          then PyExn BirdAuthError
                 ''Authentication failed. Re-extract cookies from your browser.''
          else if sublist ''429'' stderr \<or> contains_ci ''rate'' stderr
          then PyExn BirdRateLimitError ''Rate limit exceeded. Wait before retrying.''
          else if sublist ''404'' stderr
          then PyExn BirdError
                 ''Tweet not found or query IDs outdated. Try: bird query-ids --fresh''
          else PyExn BirdError (''Bird CLI failed: '' @ strip stderr))
     \<and> (sublist ''401 Unauthorized'' stderr \<longrightarrow>
          run_bird timeout (CompletedProcess returncode stdout (stderr @ '' 404'')) =
            Inl (PyExn BirdAuthError
                   ''Authentication failed. Re-extract cookies from your browser.''))"
proof -
  have "sublist ''401'' (stderr @ '' 404'')" if "sublist ''401 Unauthorized'' stderr"
  proof -
    have "sublist ''401'' ''401 Unauthorized''" by (simp add: str_in_sublist[symmetric])
    with that have "sublist ''401'' stderr" by (meson sublist_order.order.trans)
    then show ?thesis by (meson sublist_order.order.trans sublist_append_rightI)
  qed
  with run_bird_failure [OF assms] show ?thesis by simp
qed

theorem run_bird_classification_witness:
  "(1::int) \<noteq> 0 \<and>
   run_bird 60 (CompletedProcess 1 (Inl []) ''error: 401 Unauthorized'') =
     Inl (PyExn BirdAuthError ''Authentication failed. Re-extract cookies from your browser.'') \<and>
   run_bird 60 (CompletedProcess 1 (Inl []) ''error: 401 Unauthorized 404'') =
     Inl (PyExn BirdAuthError ''Authentication failed. Re-extract cookies from your browser.'')"
proof -
  have h: "(1::int) \<noteq> 0" by simp
  have a: "sublist ''401'' ''error: 401 Unauthorized''"
    and b: "sublist ''401 Unauthorized'' ''error: 401 Unauthorized''"
    by (simp_all add: str_in_sublist[symmetric])
  from run_bird_classification [OF h, of 60 "Inl []" "''error: 401 Unauthorized''"] a b
  show ?thesis by (simp del: run_bird.simps)
qed

section \<open>The scraper and its retries\<close>

lemma contains_ci_str_in: "contains_ci token s = str_in token (str_lower s)"
  by (simp add: str_in_sublist str_lower_sublist)

lemma scrape_tweets_read:
  assumes "map_of data_arg ''url'' = Some (JStr u)" "u \<noteq> []" "which_bird w"
  shows "scrape_tweets w data_arg =
     (case run_bird 60 (read_result w) of
        Inl e \<Rightarrow>
          scrape_except w (normalize_x_url u)
            (read_events (normalize_x_url u) (read_result w)) e
      | Inr raw_data \<Rightarrow>
          (case parse_bird_response (clock w) raw_data (normalize_x_url u) of
             Inl e \<Rightarrow>
               scrape_except w (normalize_x_url u)
                 (read_events (normalize_x_url u) (read_result w)) e
           | Inr tweet \<Rightarrow>
               (read_events (normalize_x_url u) (read_result w) @ [Log ''info'' ''tweet_scraped''],
                Inr \<lparr>success = True, result_url = normalize_x_url u, data = Some tweet,
                     error = None\<rparr>)))"
  using assms by (simp add: scrape_tweets_def dict_get_def Let_def)

lemma run_bird_raises_BirdError: "run_bird t r = Inl e \<Longrightarrow> is_BirdError (exn_cls e)"
  by (cases r) (auto simp: BirdNotFoundError_init_def Let_def split: if_splits sum.splits)

lemma task_retry_returned:
  "scrape_tweets (ws n) d = (ev, Inr res) \<Longrightarrow> task_retry k wait ws d n = (ev, Inr res, n + 1)"
  by (cases k) simp_all

lemma task_retry_raised:
  "scrape_tweets (ws n) d = (ev, Inl e) \<Longrightarrow>
   task_retry (Suc k) wait ws d n =
     (case task_retry k wait ws d (n + 1) of (ev', r, m) \<Rightarrow> (ev @ [Sleep wait] @ ev', r, m))"
  by simp

lemma scrape_except_fails:
  assumes "is_BirdError (exn_cls e)" "exn_cls e \<noteq> BirdRateLimitError"
    and "\<not> sublist ''404'' (exn_str e)" "\<not> contains_ci ''query'' (exn_str e)"
  shows "scrape_except w a_url ev e =
           (ev @ [Log ''error'' ''scrape_failed''],
            Inr \<lparr>success = False, result_url = a_url, data = None, error = Some (exn_str e)\<rparr>)"
  using assms by (simp add: scrape_except_def contains_ci_str_in str_in_sublist)

lemma scrape_except_raises:
  assumes "is_BirdError (exn_cls e)"
    and "exn_cls e = BirdRateLimitError \<or> sublist ''404'' (exn_str e)
         \<or> contains_ci ''query'' (exn_str e)"
  shows "\<exists>ev' e'. scrape_except w a_url ev e = (ev', Inl e')"
  using assms
  by (auto simp: scrape_except_def contains_ci_str_in str_in_sublist split: prod.splits option.splits)

lemma auth_message_plain:
  "\<not> sublist ''404'' ''Authentication failed. Re-extract cookies from your browser.''"
  "\<not> contains_ci ''query'' ''Authentication failed. Re-extract cookies from your browser.''"
  unfolding contains_ci_str_in str_in_sublist[symmetric] by code_simp+

lemma timeout_message_plain:
  "str_of_nat 60 = ''60''"
  "\<not> sublist ''404'' ''Bird command timed out after 60s''"
  "\<not> contains_ci ''query'' ''Bird command timed out after 60s''"
  unfolding contains_ci_str_in str_in_sublist[symmetric] by code_simp+

lemma stale_message_query:
  "\<not> sublist ''404'' ''Tweet not found or query IDs outdated. Try: bird query-ids --fresh''"
  "contains_ci ''query'' ''Tweet not found or query IDs outdated. Try: bird query-ids --fresh''"
  unfolding contains_ci_str_in str_in_sublist[symmetric] by code_simp+

text \<open>
  Claim C10. When the job input has no \<open>url\<close> entry, or has the empty string there,
  \<open>scrape_tweets\<close> returns the failure result with \<open>success\<close> false, the empty URL and
  the message \<open>No URL provided\<close>, and has no effect at all: no settings are read, no
  client is built (no look-up of the tool) and no subprocess is started.
\<close>

theorem scrape_tweets_no_url:
  assumes "map_of data_arg ''url'' = None \<or> map_of data_arg ''url'' = Some (JStr [])"
  shows "scrape_tweets w data_arg =
           ([], Inr \<lparr>success = False, result_url = [], data = None,
                      error = Some ''No URL provided''\<rparr>)"
  using assms by (auto simp: scrape_tweets_def dict_get_def Let_def)

theorem scrape_tweets_no_url_witness:
  "(map_of [(''proxy'', JNull)] ''url'' = None
      \<or> map_of [(''proxy'', JNull)] ''url'' = Some (JStr []))
   \<and> scrape_tweets (sample_world TimeoutExpired TimeoutExpired) [(''proxy'', JNull)] =
        ([], Inr \<lparr>success = False, result_url = [], data = None,
                   error = Some ''No URL provided''\<rparr>)"
  using scrape_tweets_no_url [of "[(''proxy'', JNull)]" "sample_world TimeoutExpired TimeoutExpired"]
  by simp

text \<open>
  Claim C4. A job whose first attempt is classified AuthExpired (the tool exits
  nonzero with \<open>401\<close>, \<open>Unauthorized\<close> or \<open>auth\<close> in its error text, so that
  \<open>BirdAuthError\<close> is raised) ends with the failure result after that one attempt,
  whatever the number of attempts allowed: the exception is caught inside
  \<open>scrape_tweets\<close> and never reaches the retry loop. The effects are those of the one
  read followed by the \<open>scrape_failed\<close> log record; nothing is waited for.
\<close>

theorem auth_expired_fails_at_once:
  assumes "map_of data_arg ''url'' = Some (JStr u)" "u \<noteq> []"
    and "which_bird (ws 0)"
    and "read_result (ws 0) = CompletedProcess returncode stdout stderr" "returncode \<noteq> 0"
    and "sublist ''401'' stderr \<or> sublist ''Unauthorized'' stderr \<or> contains_ci ''auth'' stderr"
  shows "run_job max_attempts retry_wait ws data_arg =
     (read_events (normalize_x_url u) (read_result (ws 0)) @ [Log ''error'' ''scrape_failed''],
      Inr \<lparr>success = False, result_url = normalize_x_url u, data = None,
           error = Some ''Authentication failed. Re-extract cookies from your browser.''\<rparr>,
      1)"
proof -
  let ?e = "PyExn BirdAuthError ''Authentication failed. Re-extract cookies from your browser.''"
  have "run_bird 60 (read_result (ws 0)) = Inl ?e"
    unfolding assms(4) using run_bird_failure [OF assms(5), of 60 stdout stderr] assms(6)
    by (simp del: run_bird.simps)
  then have "scrape_tweets (ws 0) data_arg =
      scrape_except (ws 0) (normalize_x_url u)
        (read_events (normalize_x_url u) (read_result (ws 0))) ?e"
    using assms(1-3) by (simp add: scrape_tweets_read)
  also have "\<dots> = (read_events (normalize_x_url u) (read_result (ws 0)) @ [Log ''error'' ''scrape_failed''],
      Inr \<lparr>success = False, result_url = normalize_x_url u, data = None,
           error = Some (exn_str ?e)\<rparr>)"
    by (rule scrape_except_fails) (simp_all add: auth_message_plain)
  finally show ?thesis
    unfolding run_job_def by (simp add: task_retry_returned)
qed

theorem auth_expired_fails_at_once_witness:
  "map_of sample_data ''url'' = Some (JStr ''https://twitter.com/user/status/123'')
   \<and> ''https://twitter.com/user/status/123'' \<noteq> []
   \<and> which_bird (every_attempt (sample_world (CompletedProcess 1 (Inl []) ''401 Unauthorized'') TimeoutExpired) 0)
   \<and> (1::int) \<noteq> 0
   \<and> sublist ''401'' ''401 Unauthorized''
   \<and> run_job 5 10 (every_attempt (sample_world (CompletedProcess 1 (Inl []) ''401 Unauthorized'') TimeoutExpired)) sample_data =
     (read_events (normalize_x_url ''https://twitter.com/user/status/123'')
        (CompletedProcess 1 (Inl []) ''401 Unauthorized'') @ [Log ''error'' ''scrape_failed''],
      Inr \<lparr>success = False, result_url = normalize_x_url ''https://twitter.com/user/status/123'',
           data = None,
           error = Some ''Authentication failed. Re-extract cookies from your browser.''\<rparr>,
      1)"
proof -
  have a: "sublist ''401'' ''401 Unauthorized''" by (simp add: str_in_sublist[symmetric])
  show ?thesis
    using a auth_expired_fails_at_once [of sample_data "''https://twitter.com/user/status/123''"
        "every_attempt (sample_world (CompletedProcess 1 (Inl []) ''401 Unauthorized'') TimeoutExpired)"
        1 "Inl []" "''401 Unauthorized''" 5 10]
    by (simp add: sample_data_def every_attempt_def sample_world_def)
qed

lemma scrape_tweets_failed_read:
  assumes "map_of data_arg ''url'' = Some (JStr u)" "u \<noteq> []" "which_bird w"
    and "run_bird 60 (read_result w) = Inl e"
  shows "scrape_tweets w data_arg =
           scrape_except w (normalize_x_url u) (read_events (normalize_x_url u) (read_result w)) e"
  using assms by (simp add: scrape_tweets_read)

lemma py_get_raises: "py_get x k d = Inl e \<Longrightarrow> \<not> is_BirdError (exn_cls e)"
  by (auto simp: py_get_def no_attribute_def split: json.splits)

lemma py_iter_raises: "py_iter x = Inl e \<Longrightarrow> \<not> is_BirdError (exn_cls e)"
  by (auto simp: py_iter_def split: json.splits)

lemma py_in_raises: "py_in needle x = Inl e \<Longrightarrow> \<not> is_BirdError (exn_cls e)"
  by (auto simp: py_in_def split: json.splits)

lemma image_loop_raises: "image_loop items acc = Inl e \<Longrightarrow> \<not> is_BirdError (exn_cls e)"
proof (induction items arbitrary: acc)
  case (Cons media rest)
  then show ?case
    by (auto simp: no_attribute_def Let_def
          split: sum.splits if_splits bool.splits json.splits
          dest: py_get_raises py_in_raises)
qed simp

lemma video_loop_raises: "video_loop items acc = Inl e \<Longrightarrow> \<not> is_BirdError (exn_cls e)"
proof (induction items arbitrary: acc)
  case (Cons media rest)
  then show ?case
    by (auto split: sum.splits if_splits dest: py_get_raises)
qed simp

lemma extract_image_urls_raises:
  "extract_image_urls raw_data = Inl e \<Longrightarrow> \<not> is_BirdError (exn_cls e)"
  by (auto simp: extract_image_urls_def split: sum.splits
        dest: py_get_raises py_iter_raises image_loop_raises)

lemma extract_video_urls_raises:
  "extract_video_urls raw_data = Inl e \<Longrightarrow> \<not> is_BirdError (exn_cls e)"
  by (auto simp: extract_video_urls_def split: sum.splits
        dest: py_get_raises py_iter_raises video_loop_raises)

lemma parse_twitter_date_raises:
  "parse_twitter_date now v = Inl e \<Longrightarrow> \<not> is_BirdError (exn_cls e)"
  by (cases v) (auto simp: parse_twitter_date_def split: option.splits)

lemma TweetData_init_raises:
  "TweetData_init a b c d e f g h i j = Inl x \<Longrightarrow> \<not> is_BirdError (exn_cls x)"
  by (auto simp: TweetData_init_def split: option.splits)

lemma map_sum_id_Inl: "map_sum id f x = Inl e \<longleftrightarrow> x = Inl e"
  by (cases x) auto

lemma parse_bird_response_raises:
  assumes "parse_bird_response now raw_data a_url = Inl e"
  shows "\<not> is_BirdError (exn_cls e)"
proof (cases raw_data)
  case (JObj r)
  show ?thesis
  proof (cases "dict_get r ''author'' (JObj [])")
    case author: (JObj author)
    show ?thesis
      using assms unfolding parse_bird_response_def Let_def JObj
      by (auto simp: author map_sum_id_Inl split: sum.splits if_splits simp del: safe_get.simps
            dest: parse_twitter_date_raises extract_image_urls_raises
              extract_video_urls_raises TweetData_init_raises)
  qed (use assms in \<open>auto simp: parse_bird_response_def JObj no_attribute_def\<close>)
qed (use assms in \<open>auto simp: parse_bird_response_def no_attribute_def\<close>)

lemma scrape_except_unexpected:
  assumes "\<not> is_BirdError (exn_cls e)"
  shows "scrape_except w a_url ev e =
           (ev @ [Log ''exception'' ''unexpected_error''],
            Inr \<lparr>success = False, result_url = a_url, data = None,
                 error = Some (''Unexpected error: '' @ exn_str e)\<rparr>)"
  using assms by (auto simp: scrape_except_def)

lemma scrape_tweets_failed_parse:
  assumes "map_of data_arg ''url'' = Some (JStr u)" "u \<noteq> []" "which_bird w"
    and "run_bird 60 (read_result w) = Inr raw_data"
    and "parse_bird_response (clock w) raw_data (normalize_x_url u) = Inl e"
  shows "scrape_tweets w data_arg =
           (read_events (normalize_x_url u) (read_result w) @ [Log ''exception'' ''unexpected_error''],
            Inr \<lparr>success = False, result_url = normalize_x_url u, data = None,
                 error = Some (''Unexpected error: '' @ exn_str e)\<rparr>)"
  using assms scrape_except_unexpected [OF parse_bird_response_raises [OF assms(5)]]
  by (simp add: scrape_tweets_read)

text \<open>
  Claim C3, as the code has it. Of the attempts that reach the tool, those followed
  by a wait of the retry delay and a new invocation with the attempt count
  incremented, while attempts remain, are the ones in which the tool client raises
  RateLimited (\<open>BirdRateLimitError\<close>) or another of its errors whose message contains
  \<open>404\<close> or, in any letter case, \<open>query\<close>. Every other failed attempt ends the job
  with the failure result on that very attempt, whatever the number of attempts that
  remain: a timeout, an unparsable output or an Unclassified failure of the tool
  whose message has neither marker, and every failure raised while the output is
  normalized (a response that is not an object, a field of the wrong type), whatever
  its message says.
\<close>

theorem retry_only_rate_limit_or_stale:
  assumes "map_of data_arg ''url'' = Some (JStr u)" "u \<noteq> []"
    and "which_bird (ws n)"
  shows "(\<forall>e. run_bird 60 (read_result (ws n)) = Inl e \<longrightarrow>
       task_retry (Suc retries) retry_wait ws data_arg n =
         (if exn_cls e = BirdRateLimitError \<or> sublist ''404'' (exn_str e)
             \<or> contains_ci ''query'' (exn_str e)
          then (case task_retry retries retry_wait ws data_arg (n + 1) of
                  (ev', r, m) \<Rightarrow>
                    (fst (scrape_tweets (ws n) data_arg) @ [Sleep retry_wait] @ ev', r, m))
          else (read_events (normalize_x_url u) (read_result (ws n))
                  @ [Log ''error'' ''scrape_failed''],
                Inr \<lparr>success = False, result_url = normalize_x_url u, data = None,
                     error = Some (exn_str e)\<rparr>,
                n + 1)))
     \<and> (\<forall>raw_data e.
           run_bird 60 (read_result (ws n)) = Inr raw_data
           \<and> parse_bird_response (clock (ws n)) raw_data (normalize_x_url u) = Inl e \<longrightarrow>
           task_retry (Suc retries) retry_wait ws data_arg n =
             (read_events (normalize_x_url u) (read_result (ws n))
                @ [Log ''exception'' ''unexpected_error''],
              Inr \<lparr>success = False, result_url = normalize_x_url u, data = None,
                   error = Some (''Unexpected error: '' @ exn_str e)\<rparr>,
              n + 1))
     \<and> (read_result (ws n) = TimeoutExpired \<longrightarrow>
          task_retry (Suc retries) retry_wait ws data_arg n =
            (read_events (normalize_x_url u) TimeoutExpired @ [Log ''error'' ''scrape_failed''],
             Inr \<lparr>success = False, result_url = normalize_x_url u, data = None,
                  error = Some ''Bird command timed out after 60s''\<rparr>,
             n + 1))"
proof -
  let ?ev = "read_events (normalize_x_url u) (read_result (ws n))"
  have general: "task_retry (Suc retries) retry_wait ws data_arg n =
     (if exn_cls e = BirdRateLimitError \<or> sublist ''404'' (exn_str e)
         \<or> contains_ci ''query'' (exn_str e)
      then (case task_retry retries retry_wait ws data_arg (n + 1) of
              (ev', r, m) \<Rightarrow>
                (fst (scrape_tweets (ws n) data_arg) @ [Sleep retry_wait] @ ev', r, m))
      else (?ev @ [Log ''error'' ''scrape_failed''],
            Inr \<lparr>success = False, result_url = normalize_x_url u, data = None,
                 error = Some (exn_str e)\<rparr>,
            n + 1))"
    if run: "run_bird 60 (read_result (ws n)) = Inl e" for e
  proof -
    have bird: "is_BirdError (exn_cls e)"
      using run by (rule run_bird_raises_BirdError)
    have s: "scrape_tweets (ws n) data_arg = scrape_except (ws n) (normalize_x_url u) ?ev e"
      using assms run by (rule scrape_tweets_failed_read)
    show ?thesis
    proof (cases "exn_cls e = BirdRateLimitError \<or> sublist ''404'' (exn_str e)
                  \<or> contains_ci ''query'' (exn_str e)")
      case True
      with bird obtain ev' e' where "scrape_except (ws n) (normalize_x_url u) ?ev e = (ev', Inl e')"
        using scrape_except_raises by blast
      with s have r: "scrape_tweets (ws n) data_arg = (ev', Inl e')" by simp
      show ?thesis
        using True task_retry_raised [where ws = ws and n = n, OF r, of retries retry_wait] r
        by (simp del: task_retry.simps)
    next
      case False
      with bird have "scrape_except (ws n) (normalize_x_url u) ?ev e =
          (?ev @ [Log ''error'' ''scrape_failed''],
           Inr \<lparr>success = False, result_url = normalize_x_url u, data = None,
                error = Some (exn_str e)\<rparr>)"
        by (intro scrape_except_fails) simp_all
      with s have "scrape_tweets (ws n) data_arg =
          (?ev @ [Log ''error'' ''scrape_failed''],
           Inr \<lparr>success = False, result_url = normalize_x_url u, data = None,
                error = Some (exn_str e)\<rparr>)"
        by simp
      then show ?thesis
        using False by (simp only: task_retry_returned if_False)
    qed
  qed
  have normalizer: "task_retry (Suc retries) retry_wait ws data_arg n =
     (?ev @ [Log ''exception'' ''unexpected_error''],
      Inr \<lparr>success = False, result_url = normalize_x_url u, data = None,
           error = Some (''Unexpected error: '' @ exn_str e)\<rparr>,
      n + 1)"
    if "run_bird 60 (read_result (ws n)) = Inr raw_data"
      and "parse_bird_response (clock (ws n)) raw_data (normalize_x_url u) = Inl e"
    for raw_data e
    using scrape_tweets_failed_parse [OF assms that] by (simp only: task_retry_returned)
  have timeout: "task_retry (Suc retries) retry_wait ws data_arg n =
            (read_events (normalize_x_url u) TimeoutExpired @ [Log ''error'' ''scrape_failed''],
             Inr \<lparr>success = False, result_url = normalize_x_url u, data = None,
                  error = Some ''Bird command timed out after 60s''\<rparr>,
             n + 1)"
    if t: "read_result (ws n) = TimeoutExpired"
  proof -
    have "run_bird 60 (read_result (ws n)) =
            Inl (PyExn BirdError ''Bird command timed out after 60s'')"
      unfolding t by (simp add: timeout_message_plain)
    from general [OF this] show ?thesis
      by (simp add: timeout_message_plain t del: task_retry.simps)
  qed
  from general normalizer timeout show ?thesis by blast
qed

theorem retry_only_rate_limit_or_stale_witness:
  "map_of sample_data ''url'' = Some (JStr ''https://twitter.com/user/status/123'')
   \<and> ''https://twitter.com/user/status/123'' \<noteq> []
   \<and> which_bird (every_attempt (sample_world TimeoutExpired TimeoutExpired) 0)
   \<and> read_result (every_attempt (sample_world TimeoutExpired TimeoutExpired) 0) = TimeoutExpired
   \<and> task_retry (Suc 4) 10 (every_attempt (sample_world TimeoutExpired TimeoutExpired))
        sample_data 0 =
        (read_events (normalize_x_url ''https://twitter.com/user/status/123'') TimeoutExpired
           @ [Log ''error'' ''scrape_failed''],
         Inr \<lparr>success = False,
              result_url = normalize_x_url ''https://twitter.com/user/status/123'',
              data = None, error = Some ''Bird command timed out after 60s''\<rparr>,
         0 + 1)
   \<and> which_bird (every_attempt
        (sample_world (CompletedProcess 0 (Inr (JObj [(''id'', JNum 404)])) []) TimeoutExpired) 0)
   \<and> run_bird 60 (read_result (every_attempt
        (sample_world (CompletedProcess 0 (Inr (JObj [(''id'', JNum 404)])) []) TimeoutExpired) 0)) =
        Inr (JObj [(''id'', JNum 404)])
   \<and> parse_bird_response (clock (every_attempt
        (sample_world (CompletedProcess 0 (Inr (JObj [(''id'', JNum 404)])) []) TimeoutExpired) 0))
        (JObj [(''id'', JNum 404)]) (normalize_x_url ''https://twitter.com/user/status/123'') =
        Inl (PyExn ValidationError
               ''1 validation error for TweetData\<newline>id\<newline>  Input should be a valid string [type=string_type, input_value=404, input_type=int]\<newline>    For further information visit https://errors.pydantic.dev/2.11/v/string_type'')
   \<and> sublist ''404''
        ''1 validation error for TweetData\<newline>id\<newline>  Input should be a valid string [type=string_type, input_value=404, input_type=int]\<newline>    For further information visit https://errors.pydantic.dev/2.11/v/string_type''
   \<and> task_retry (Suc 4) 10 (every_attempt
        (sample_world (CompletedProcess 0 (Inr (JObj [(''id'', JNum 404)])) []) TimeoutExpired))
        sample_data 0 =
        (read_events (normalize_x_url ''https://twitter.com/user/status/123'')
           (read_result (every_attempt
              (sample_world (CompletedProcess 0 (Inr (JObj [(''id'', JNum 404)])) [])
                 TimeoutExpired) 0))
           @ [Log ''exception'' ''unexpected_error''],
         Inr \<lparr>success = False,
              result_url = normalize_x_url ''https://twitter.com/user/status/123'',
              data = None,
              error = Some (''Unexpected error: '' @ exn_str (PyExn ValidationError
               ''1 validation error for TweetData\<newline>id\<newline>  Input should be a valid string [type=string_type, input_value=404, input_type=int]\<newline>    For further information visit https://errors.pydantic.dev/2.11/v/string_type''))\<rparr>,
         0 + 1)"
proof -
  let ?u = "''https://twitter.com/user/status/123''"
  let ?wt = "every_attempt (sample_world TimeoutExpired TimeoutExpired)"
  let ?wm = "every_attempt
        (sample_world (CompletedProcess 0 (Inr (JObj [(''id'', JNum 404)])) []) TimeoutExpired)"
  let ?msg = "''1 validation error for TweetData\<newline>id\<newline>  Input should be a valid string [type=string_type, input_value=404, input_type=int]\<newline>    For further information visit https://errors.pydantic.dev/2.11/v/string_type''"
  have u: "map_of sample_data ''url'' = Some (JStr ?u)" "?u \<noteq> []"
    by (simp_all add: sample_data_def)
  have wt: "which_bird (?wt 0)" "read_result (?wt 0) = TimeoutExpired"
    by (simp_all add: every_attempt_def sample_world_def)
  have wm: "which_bird (?wm 0)"
    by (simp add: every_attempt_def sample_world_def)
  have run: "run_bird 60 (read_result (?wm 0)) = Inr (JObj [(''id'', JNum 404)])"
    by (simp add: every_attempt_def sample_world_def)
  have parse: "parse_bird_response (clock (?wm 0)) (JObj [(''id'', JNum 404)])
                 (normalize_x_url ?u) = Inl (PyExn ValidationError ?msg)"
    by code_simp
  have marker: "sublist ''404'' ?msg"
    unfolding str_in_sublist[symmetric] by code_simp
  from retry_only_rate_limit_or_stale [of sample_data ?u ?wt 0 4 10, OF u wt(1)] wt(2)
  have t: "task_retry (Suc 4) 10 ?wt sample_data 0 =
        (read_events (normalize_x_url ?u) TimeoutExpired @ [Log ''error'' ''scrape_failed''],
         Inr \<lparr>success = False, result_url = normalize_x_url ?u,
              data = None, error = Some ''Bird command timed out after 60s''\<rparr>,
         0 + 1)"
    by blast
  from retry_only_rate_limit_or_stale [of sample_data ?u ?wm 0 4 10, OF u wm] run parse
  have m: "task_retry (Suc 4) 10 ?wm sample_data 0 =
        (read_events (normalize_x_url ?u) (read_result (?wm 0))
           @ [Log ''exception'' ''unexpected_error''],
         Inr \<lparr>success = False, result_url = normalize_x_url ?u, data = None,
              error = Some (''Unexpected error: '' @ exn_str (PyExn ValidationError ?msg))\<rparr>,
         0 + 1)"
    by blast
  from u wt wm run parse marker t m show ?thesis by blast
qed

text \<open>
  The claim as the specification states it fails on a timeout: with five attempts
  allowed and a tool that times out, the job ends with the failure result after one
  attempt.
\<close>

theorem timeout_retried_counterexample:
  "run_job 5 10 (every_attempt (sample_world TimeoutExpired TimeoutExpired)) sample_data =
     ([GetSettings, GetSettings, Which ''bird'', Log ''info'' ''scraping_tweet'',
       Log ''info'' ''reading_tweet'', Log ''debug'' ''executing_bird'',
       Spawn [''bird'', ''read'', ''https://x.com/user/status/123'', ''--json''],
       Log ''error'' ''scrape_failed''],
      Inr \<lparr>success = False, result_url = ''https://x.com/user/status/123'', data = None,
           error = Some ''Bird command timed out after 60s''\<rparr>,
      1)"
  by code_simp

lemma scrape_except_stale:
  assumes "is_BirdError (exn_cls e)" "exn_cls e \<noteq> BirdRateLimitError"
    and "sublist ''404'' (exn_str e) \<or> contains_ci ''query'' (exn_str e)"
  shows "scrape_except w a_url ev e =
     (ev @ [Log ''info'' ''refreshing_query_ids_for_retry''] @ fst (refresh_query_ids (refresh_result w)),
      Inl (case snd (refresh_query_ids (refresh_result w)) of None \<Rightarrow> e | Some e' \<Rightarrow> e'))"
  using assms
  by (auto simp: scrape_except_def contains_ci_str_in str_in_sublist split: prod.splits option.splits)

text \<open>
  Claim C5, as the code has it. When an attempt fails as NotFoundOrStale (the tool
  exits nonzero and its error text contains \<open>404\<close> without matching the
  authentication or rate-limit rules), \<open>scrape_tweets\<close> runs the refresh command
  after the read and before the error leaves the attempt for the retry loop, which
  then waits and invokes the tool again when attempts remain. A timeout of the
  refresh command is swallowed and logged as a warning, and a refresh that completes
  is not inspected at all, whatever its exit code: in both cases the original error
  is the one re-raised. When the refresh executable cannot be found,
  \<open>refresh_query_ids\<close> raises \<open>BirdNotFoundError\<close>, which leaves the attempt in place
  of the original error; the job is retried all the same, not failed.
\<close>

theorem stale_refresh_then_retry:
  assumes "map_of data_arg ''url'' = Some (JStr u)" "u \<noteq> []"
    and "which_bird (ws n)"
    and "read_result (ws n) = CompletedProcess returncode stdout stderr" "returncode \<noteq> 0"
    and "\<not> (sublist ''401'' stderr \<or> sublist ''Unauthorized'' stderr \<or> contains_ci ''auth'' stderr)"
    and "\<not> (sublist ''429'' stderr \<or> contains_ci ''rate'' stderr)"
    and "sublist ''404'' stderr"
  shows "scrape_tweets (ws n) data_arg =
     (read_events (normalize_x_url u) (read_result (ws n))
        @ [Log ''info'' ''refreshing_query_ids_for_retry'', Log ''info'' ''refreshing_query_ids'',
           Spawn [''bird'', ''query-ids'', ''--fresh'']]
        @ (if refresh_result (ws n) = TimeoutExpired
           then [Log ''warning'' ''query_ids_refresh_timeout''] else []),
      Inl (if refresh_result (ws n) = FileNotFoundError then BirdNotFoundError_init
           else PyExn BirdError
                  ''Tweet not found or query IDs outdated. Try: bird query-ids --fresh''))
     \<and> task_retry (Suc retries) retry_wait ws data_arg n =
         (case task_retry retries retry_wait ws data_arg (n + 1) of
            (ev', r, m) \<Rightarrow>
              (fst (scrape_tweets (ws n) data_arg) @ [Sleep retry_wait] @ ev', r, m))"
proof -
  let ?e = "PyExn BirdError ''Tweet not found or query IDs outdated. Try: bird query-ids --fresh''"
  let ?ev = "read_events (normalize_x_url u) (read_result (ws n))"
  have "run_bird 60 (read_result (ws n)) = Inl ?e"
    unfolding assms(4) using run_bird_failure [OF assms(5), of 60 stdout stderr] assms(6-8)
    by (simp del: run_bird.simps)
  then have "scrape_tweets (ws n) data_arg = scrape_except (ws n) (normalize_x_url u) ?ev ?e"
    using assms(1-3) by (intro scrape_tweets_failed_read)
  also have "\<dots> =
     (?ev @ [Log ''info'' ''refreshing_query_ids_for_retry''] @ fst (refresh_query_ids (refresh_result (ws n))),
      Inl (case snd (refresh_query_ids (refresh_result (ws n))) of None \<Rightarrow> ?e | Some e' \<Rightarrow> e'))"
    by (rule scrape_except_stale) (simp_all add: stale_message_query)
  finally have s: "scrape_tweets (ws n) data_arg =
     (?ev @ [Log ''info'' ''refreshing_query_ids_for_retry''] @ fst (refresh_query_ids (refresh_result (ws n))),
      Inl (case snd (refresh_query_ids (refresh_result (ws n))) of None \<Rightarrow> ?e | Some e' \<Rightarrow> e'))" .
  have first: "scrape_tweets (ws n) data_arg =
     (?ev @ [Log ''info'' ''refreshing_query_ids_for_retry'', Log ''info'' ''refreshing_query_ids'',
           Spawn [''bird'', ''query-ids'', ''--fresh'']]
        @ (if refresh_result (ws n) = TimeoutExpired
           then [Log ''warning'' ''query_ids_refresh_timeout''] else []),
      Inl (if refresh_result (ws n) = FileNotFoundError then BirdNotFoundError_init else ?e))"
    unfolding s by (cases "refresh_result (ws n)") (simp_all add: refresh_query_ids_def)
  have "task_retry (Suc retries) retry_wait ws data_arg n =
         (case task_retry retries retry_wait ws data_arg (n + 1) of
            (ev', r, m) \<Rightarrow>
              (fst (scrape_tweets (ws n) data_arg) @ [Sleep retry_wait] @ ev', r, m))"
    using task_retry_raised [where ws = ws and n = n, OF s, of retries retry_wait] s
    by (simp del: task_retry.simps)
  with first show ?thesis by (simp del: task_retry.simps)
qed

theorem stale_refresh_then_retry_witness:
  "map_of sample_data ''url'' = Some (JStr ''https://twitter.com/user/status/123'')
   \<and> ''https://twitter.com/user/status/123'' \<noteq> []
   \<and> which_bird (every_attempt (sample_world (CompletedProcess 1 (Inl []) ''HTTP 404'') TimeoutExpired) 0)
   \<and> (1::int) \<noteq> 0
   \<and> \<not> (sublist ''401'' ''HTTP 404'' \<or> sublist ''Unauthorized'' ''HTTP 404''
          \<or> contains_ci ''auth'' ''HTTP 404'')
   \<and> \<not> (sublist ''429'' ''HTTP 404'' \<or> contains_ci ''rate'' ''HTTP 404'')
   \<and> sublist ''404'' ''HTTP 404''
   \<and> scrape_tweets (every_attempt (sample_world (CompletedProcess 1 (Inl []) ''HTTP 404'') TimeoutExpired) 0)
        sample_data =
     (read_events (normalize_x_url ''https://twitter.com/user/status/123'')
        (CompletedProcess 1 (Inl []) ''HTTP 404'')
        @ [Log ''info'' ''refreshing_query_ids_for_retry'', Log ''info'' ''refreshing_query_ids'',
           Spawn [''bird'', ''query-ids'', ''--fresh''],
           Log ''warning'' ''query_ids_refresh_timeout''],
      Inl (PyExn BirdError
             ''Tweet not found or query IDs outdated. Try: bird query-ids --fresh''))"
proof -
  have a: "\<not> (sublist ''401'' ''HTTP 404'' \<or> sublist ''Unauthorized'' ''HTTP 404''
          \<or> contains_ci ''auth'' ''HTTP 404'')"
    and b: "\<not> (sublist ''429'' ''HTTP 404'' \<or> contains_ci ''rate'' ''HTTP 404'')"
    and c: "sublist ''404'' ''HTTP 404''"
    unfolding contains_ci_str_in str_in_sublist[symmetric] by code_simp+
  show ?thesis
    using a b c stale_refresh_then_retry [of sample_data "''https://twitter.com/user/status/123''"
        "every_attempt (sample_world (CompletedProcess 1 (Inl []) ''HTTP 404'') TimeoutExpired)" 0
        1 "Inl []" "''HTTP 404''" 4 10]
    by (simp add: sample_data_def every_attempt_def sample_world_def del: task_retry.simps)
qed

text \<open>
  The claim as the specification states it fails when the refresh executable is
  missing: the failure of the refresh action escalates out of \<open>refresh_query_ids\<close>
  and out of the attempt that triggered it.
\<close>

theorem refresh_failure_escalates_counterexample:
  "refresh_query_ids FileNotFoundError =
     ([Log ''info'' ''refreshing_query_ids'', Spawn [''bird'', ''query-ids'', ''--fresh'']],
      Some BirdNotFoundError_init)
   \<and> snd (scrape_tweets (sample_world (CompletedProcess 1 (Inl []) ''HTTP 404'') FileNotFoundError)
            sample_data) = Inl BirdNotFoundError_init"
  by code_simp

section \<open>Image extraction\<close>

lemma str_endswith_suffix: "str_endswith s suf = suffix suf s"
  by (simp add: str_endswith_def suffix_to_prefix)

lemma image_loop_result:
  "image_loop items acc = Inr imgs \<Longrightarrow>
   imgs = acc @ map canonical_image_url (List.map_filter qualifying_photo_url items)"
proof (induction items arbitrary: acc)
  case Nil
  then show ?case by simp
next
  case (Cons media rest)
  show ?case
  proof (cases "qualifying_photo_url media")
    case None
    with Cons.prems have "image_loop rest acc = Inr imgs"
      by (auto simp: qualifying_photo_url_def py_get_def py_in_def str_in_sublist Let_def
               split: json.splits if_splits sum.splits bool.splits)
    from Cons.IH [OF this] None show ?thesis by simp
  next
    case (Some u)
    with Cons.prems have "image_loop rest (acc @ [canonical_image_url u]) = Inr imgs"
      by (auto simp: qualifying_photo_url_def py_get_def py_in_def str_in_sublist Let_def
                     canonical_image_url_def str_endswith_suffix
               split: json.splits if_splits sum.splits bool.splits)
    from Cons.IH [OF this] Some show ?thesis by simp
  qed
qed

lemma canonical_image_url_marker:
  "sublist ''name=orig'' (canonical_image_url u) \<or> sublist '':orig'' (canonical_image_url u)"
proof (cases "suffix '':orig'' (takeWhile (\<lambda>c. c \<noteq> CHR ''?'') u)")
  case True
  then have "sublist '':orig'' (takeWhile (\<lambda>c. c \<noteq> CHR ''?'') u)"
    by (rule suffix_imp_sublist)
  moreover have "sublist (takeWhile (\<lambda>c. c \<noteq> CHR ''?'') u) u"
    by (metis prefix_imp_sublist takeWhile_is_prefix)
  ultimately have "sublist '':orig'' u" by (meson sublist_order.order.trans)
  with True show ?thesis by (simp add: canonical_image_url_def)
next
  case False
  have "sublist ''name=orig'' (b @ ''?format=jpg&'' @ ''name=orig'')" for b :: string
    by (metis append.assoc sublist_append_leftI)
  with False show ?thesis by (simp add: canonical_image_url_def)
qed

text \<open>
  What \<open>extract_image_urls\<close> returns. Whenever it returns a list, the response is a
  dict and the list holds, in the order of the media items, one URL for each item of
  type \<open>photo\<close> whose URL is a string containing \<open>twimg.com\<close>: two qualifying items
  give exactly two URLs and an empty media list gives the empty list. A kept URL
  whose part before the first question mark does not end with \<open>:orig\<close> is returned
  as that part followed by the query \<open>format=jpg&name=orig\<close>.
\<close>

lemma extract_image_urls_result:
  assumes "extract_image_urls raw_data = Inr imgs"
  shows "\<exists>r items. raw_data = JObj r
           \<and> py_iter (dict_get r ''media'' (JArr [])) = Inr items
           \<and> imgs = map canonical_image_url (List.map_filter qualifying_photo_url items)
           \<and> (length (List.map_filter qualifying_photo_url items) = 2 \<longrightarrow> length imgs = 2)
           \<and> (items = [] \<longrightarrow> imgs = [])"
proof -
  from assms obtain r items where r: "raw_data = JObj r"
    and it: "py_iter (dict_get r ''media'' (JArr [])) = Inr items"
    and loop: "image_loop items [] = Inr imgs"
    by (auto simp: extract_image_urls_def py_get_def split: json.splits sum.splits)
  from loop have imgs: "imgs = map canonical_image_url (List.map_filter qualifying_photo_url items)"
    using image_loop_result by fastforce
  with r it show ?thesis by auto
qed

text \<open>
  Claim C9 fails on the code. A photo URL on the image host that carries \<open>:orig\<close>
  before a query string does not end with an original-size marker, so that by the
  claim its query string is stripped and the canonical query appended; the sibling
  \<open>format_image_url\<close> does so. \<open>extract_image_urls\<close> looks for the marker at the end
  of the URL without its query string but keeps the URL as it came: the size query
  \<open>name=small\<close> stays, and the returned URL does not contain \<open>name=orig\<close>.
\<close>

theorem extract_image_urls_keeps_size_query:
  "extract_image_urls
     (JObj [(''media'',
             JArr [JObj [(''type'', JStr ''photo''),
                         (''url'', JStr ''https://pbs.twimg.com/media/a.jpg:orig?name=small'')]])]) =
     Inr [''https://pbs.twimg.com/media/a.jpg:orig?name=small'']
   \<and> \<not> str_endswith ''https://pbs.twimg.com/media/a.jpg:orig?name=small'' '':orig''
   \<and> \<not> str_in ''name=orig'' ''https://pbs.twimg.com/media/a.jpg:orig?name=small''
   \<and> str_in ''?name=small'' ''https://pbs.twimg.com/media/a.jpg:orig?name=small''
   \<and> format_image_url ''https://pbs.twimg.com/media/a.jpg:orig?name=small'' ''orig'' =
         ''https://pbs.twimg.com/media/a.jpg:orig?format=jpg&name=orig''"
  by code_simp

section \<open>The normalizer\<close>









section \<open>Normalizing twice\<close>










section \<open>The date fallback chain\<close>

lemma datetime_new_valid:
  assumes "datetime_new y m d h mi s us tz = Some t"
  shows "valid_datetime t"
  using assms unfolding datetime_new_def valid_datetime_def
  by (auto split: if_splits)

lemma strptime_valid:
  assumes "strptime s = Some t"
  shows "valid_datetime t"
  using assms unfolding strptime_def
  by (auto split: bind_splits prod.splits if_splits simp: datetime_new_valid)

lemma fromisoformat_valid:
  assumes "fromisoformat s = Some t"
  shows "valid_datetime t"
  using assms unfolding fromisoformat_def Let_def
  by (auto split: bind_splits prod.splits if_splits simp: datetime_new_valid)

lemma str_replace_Z:
  "str_replace ''Z'' new (c # cs) =
     (if c = CHR ''Z'' then new @ str_replace ''Z'' new cs else c # str_replace ''Z'' new cs)"
  by simp

lemma str_replace_trailing_Z:
  assumes "CHR ''Z'' \<notin> set (butlast s)"
  shows "str_replace ''Z'' ''+00:00'' s = trailing_Z_as_offset s"
  using assms
proof (induction s)
  case Nil
  show ?case by (simp add: trailing_Z_as_offset_def)
next
  case (Cons c cs)
  show ?case
  proof (cases "cs = []")
    case True
    then show ?thesis by (simp add: trailing_Z_as_offset_def del: str_replace.simps(2) add: str_replace_Z)
  next
    case False
    with Cons.prems have c: "c \<noteq> CHR ''Z''" and "CHR ''Z'' \<notin> set (butlast cs)" by auto
    from Cons.IH [OF this(2)] c False show ?thesis
      by (simp add: trailing_Z_as_offset_def del: str_replace.simps(2) add: str_replace_Z)
  qed
qed

lemma strptime_example:
  "strptime ''Wed Jan 08 20:25:00 +0000 2026'' =
     Some \<lparr>year = 2026, month = 1, day = 8, hour = 20, minute = 25, second = 0,
           microsecond = 0, tzinfo = Some 0\<rparr>"
  by code_simp

lemma fromisoformat_example:
  "strptime ''2026-01-15T10:30:00Z'' = None"
  "fromisoformat (str_replace ''Z'' ''+00:00'' ''2026-01-15T10:30:00Z'') =
     Some \<lparr>year = 2026, month = 1, day = 15, hour = 10, minute = 30, second = 0,
           microsecond = 0, tzinfo = Some 0\<rparr>"
  by code_simp+

text \<open>
  What \<open>parse_twitter_date\<close> does on a string. It never raises, and the timestamp it
  returns is a valid one whenever the clock reading is. On a text with no \<open>Z\<close>
  before its last character it follows the rule of the specification: the native
  format, then ISO-8601 with a trailing \<open>Z\<close> read as the offset \<open>+00:00\<close>, then
  the clock. The two sample texts of the specification parse as it says.
\<close>

lemma parse_twitter_date_returns:
  "\<exists>d. parse_twitter_date now (JStr s) = Inr d \<and> (valid_datetime now \<longrightarrow> valid_datetime d)"
  by (auto simp: parse_twitter_date_def strptime_valid fromisoformat_valid split: option.splits)

lemma parse_twitter_date_trailing_Z:
  assumes "CHR ''Z'' \<notin> set (butlast s)"
  shows "parse_twitter_date now (JStr s) =
     Inr (case strptime s of
            Some d \<Rightarrow> d
          | None \<Rightarrow>
              (case fromisoformat (trailing_Z_as_offset s) of
                 Some d \<Rightarrow> d
               | None \<Rightarrow> now))"
  using assms
  by (simp add: parse_twitter_date_def str_replace_trailing_Z split: option.splits)

lemma parse_twitter_date_examples:
  "\<exists>d. parse_twitter_date now (JStr ''Wed Jan 08 20:25:00 +0000 2026'') = Inr d
        \<and> year d = 2026 \<and> month d = 1 \<and> day d = 8"
  "\<exists>d. parse_twitter_date now (JStr ''2026-01-15T10:30:00Z'') = Inr d
        \<and> year d = 2026 \<and> month d = 1"
  unfolding parse_twitter_date_def
  by (simp_all add: strptime_example fromisoformat_example del: str_replace.simps)

text \<open>
  Claim C6 fails on the code. The text \<open>2026-01-15T10:30Z:15\<close> is not in the tool's
  native format and is no ISO-8601 timestamp, with or without the rule for a trailing
  \<open>Z\<close>, which leaves a text that does not end with \<open>Z\<close> as it is: \<open>strptime\<close> and
  \<open>fromisoformat\<close> both refuse it. By the claim the clock reading is returned.
  \<open>parse_twitter_date\<close> replaces the \<open>Z\<close> in the middle of the text as well;
  \<open>fromisoformat\<close> accepts the outcome \<open>2026-01-15T10:30+00:00:15\<close>, and the result
  is half past ten on 15 January 2026 at an offset of fifteen seconds from UTC,
  whatever the clock reads.
\<close>

theorem parse_twitter_date_inner_Z:
  "strptime ''2026-01-15T10:30Z:15'' = None
   \<and> trailing_Z_as_offset ''2026-01-15T10:30Z:15'' = ''2026-01-15T10:30Z:15''
   \<and> fromisoformat ''2026-01-15T10:30Z:15'' = None
   \<and> str_replace ''Z'' ''+00:00'' ''2026-01-15T10:30Z:15'' = ''2026-01-15T10:30+00:00:15''
   \<and> parse_twitter_date sample_clock (JStr ''2026-01-15T10:30Z:15'') =
         Inr \<lparr>year = 2026, month = 1, day = 15, hour = 10, minute = 30, second = 0,
              microsecond = 0, tzinfo = Some 15000000\<rparr>
   \<and> parse_twitter_date later_clock (JStr ''2026-01-15T10:30Z:15'') =
         Inr \<lparr>year = 2026, month = 1, day = 15, hour = 10, minute = 30, second = 0,
              microsecond = 0, tzinfo = Some 15000000\<rparr>"
  by code_simp

end
